theory Spec2Isabelle
  imports Main
begin

section \<open>Errors\<close>

text \<open>
  The exceptions the modelled functions raise, as values. \<open>jwt_error\<close> lists the errors
  of the JWT library (all of them subclasses of its \<open>PyJWTError\<close>); \<open>PyJWTError e\<close> is
  such an error leaving a function uncaught. \<open>TokenHasExpired\<close> stands for
  \<^verbatim>\<open>Exception("Token has expired.")\<close> and \<open>InvalidToken e\<close> for
  \<^verbatim>\<open>Exception(f"Invalid token: {e}")\<close>, carrying the library error \<open>e\<close>;
  \<open>IntegrityError\<close> and \<open>MultipleResultsFound\<close> are the database layer's;
  \<open>RuntimeError\<close> and \<open>WebSocketDisconnect\<close> are those a WebSocket raises;
  \<open>HTTPException code detail\<close> is FastAPI's exception of that status code.
\<close>

datatype jwt_error = DecodeError | InvalidSignatureError | ExpiredSignatureError

datatype error =
    ValueError
  | KeyError string
  | IndexError
  | OverflowError
  | PyJWTError jwt_error
  | TokenHasExpired
  | InvalidToken jwt_error
  | IntegrityError
  | MultipleResultsFound
  | RuntimeError
  | WebSocketDisconnect
  | HTTPException nat string

section \<open>Connection registry (app/core/connection\_manager.py)\<close>

text \<open>
  \<open>ConnectionManager.active_connections\<close> is a dict from a chatroom id to a Python list of
  WebSocket objects. A WebSocket is compared by identity, so a channel is modelled by a
  number naming the object.

  The registry calls two methods of the web framework's WebSocket, \<open>accept()\<close> and
  \<open>send_json(message)\<close>, and both can raise. The framework is modelled by the state of each
  channel: a WebSocket starts \<open>CONNECTING\<close>; \<open>accept()\<close> succeeds only then and makes it
  \<open>CONNECTED\<close>, and raises RuntimeError otherwise, so a second \<open>accept()\<close> of the same
  WebSocket always raises; \<open>send_json\<close> succeeds only on a \<open>CONNECTED\<close> channel and raises
  on one that is closed or whose peer is gone (\<open>DISCONNECTED\<close>); \<open>close\<close> and the loss of
  the peer make the channel \<open>DISCONNECTED\<close> for good.
\<close>

type_synonym websocket = nat

datatype ws_status = CONNECTING | CONNECTED | DISCONNECTED

type_synonym transport = "websocket \<Rightarrow> ws_status"

type_synonym active_connections = "int \<rightharpoonup> websocket list"

definition transport_init :: transport where
  "transport_init = (\<lambda>ws. CONNECTING)"

definition websocket_accept :: "transport \<Rightarrow> websocket \<Rightarrow> error + transport" where
  "websocket_accept tr ws =
     (if tr ws = CONNECTING then Inr (tr(ws := CONNECTED)) else Inl RuntimeError)"

definition websocket_send_json :: "transport \<Rightarrow> websocket \<Rightarrow> error + unit" where
  "websocket_send_json tr ws =
     (case tr ws of
        CONNECTED \<Rightarrow> Inr ()
      | CONNECTING \<Rightarrow> Inl RuntimeError
      | DISCONNECTED \<Rightarrow> Inl WebSocketDisconnect)"

definition websocket_close :: "transport \<Rightarrow> websocket \<Rightarrow> transport" where
  "websocket_close tr ws = tr(ws := DISCONNECTED)"

text \<open>Python's \<open>list.remove(x)\<close>: drops the first element equal to \<open>x\<close>, raises
  ValueError when there is none.\<close>

definition list_remove :: "'a list \<Rightarrow> 'a \<Rightarrow> error + 'a list" where
  "list_remove xs x = (if x \<in> set xs then Inr (remove1 x xs) else Inl ValueError)"

text \<open>\<open>ConnectionManager()\<close>: the registry starts empty.\<close>

definition manager_init :: active_connections where
  "manager_init = Map.empty"

text \<open>
  \<open>connect\<close> awaits \<open>websocket.accept()\<close> first: when that raises, nothing is appended.
  The result is the state of the channels and the registry after the call.
\<close>

definition connect ::
  "transport \<Rightarrow> active_connections \<Rightarrow> int \<Rightarrow> websocket \<Rightarrow>
   error + (transport \<times> active_connections)" where
  "connect tr ac chatroom_id ws =
     (case websocket_accept tr ws of
        Inl e \<Rightarrow> Inl e
      | Inr tr' \<Rightarrow>
          (let ac1 = (if ac chatroom_id = None then ac(chatroom_id \<mapsto> []) else ac)
           in case ac1 chatroom_id of
                None \<Rightarrow> Inr (tr', ac1)
              | Some conns \<Rightarrow> Inr (tr', ac1(chatroom_id \<mapsto> conns @ [ws]))))"

definition disconnect ::
  "active_connections \<Rightarrow> int \<Rightarrow> websocket \<Rightarrow> error + active_connections" where
  "disconnect ac chatroom_id ws =
     (case ac chatroom_id of
        None \<Rightarrow> Inr ac
      | Some conns \<Rightarrow>
          (case list_remove conns ws of
             Inl e \<Rightarrow> Inl e
           | Inr conns' \<Rightarrow>
               if conns' = [] then Inr (ac(chatroom_id := None))
               else Inr (ac(chatroom_id \<mapsto> conns'))))"

text \<open>
  The loop of \<open>broadcast\<close> has no handler: the first \<open>send_json\<close> that raises ends it, and
  the channels after that one are not reached. The result is the list of the sends made, in
  order, as (channel, message), and the exception that ended the loop, if any. The loop is
  taken to run without another task changing the list or the channels in between.
\<close>

fun send_each ::
  "transport \<Rightarrow> websocket list \<Rightarrow> 'm \<Rightarrow> (websocket \<times> 'm) list \<times> error option" where
  "send_each tr [] message = ([], None)"
| "send_each tr (connection # rest) message =
     (case websocket_send_json tr connection of
        Inl e \<Rightarrow> ([], Some e)
      | Inr u \<Rightarrow>
          (case send_each tr rest message of
             (sent, raised) \<Rightarrow> ((connection, message) # sent, raised)))"

definition broadcast ::
  "transport \<Rightarrow> active_connections \<Rightarrow> int \<Rightarrow> 'm \<Rightarrow> (websocket \<times> 'm) list \<times> error option" where
  "broadcast tr ac chatroom_id message =
     (case ac chatroom_id of
        None \<Rightarrow> ([], None)
      | Some conns \<Rightarrow> send_each tr conns message)"

text \<open>The channels registered under a room; no entry reads as no channel.\<close>

definition channels :: "active_connections \<Rightarrow> int \<Rightarrow> websocket list" where
  "channels ac chatroom_id = (case ac chatroom_id of None \<Rightarrow> [] | Some conns \<Rightarrow> conns)"

text \<open>
  A history of the registry: the calls of its three methods, and \<open>Drop ws\<close>, the channel
  \<open>ws\<close> being closed or losing its peer. A \<open>connect\<close> or \<open>disconnect\<close> that raises leaves
  channels and registry as they were (\<open>accept\<close> raises before the append, \<open>list.remove\<close>
  before it changes the list); a broadcast does not touch them. A history starts with every
  WebSocket new and the registry empty.
\<close>

datatype 'm registry_op =
    Connect int websocket
  | Disconnect int websocket
  | Broadcast int 'm
  | Drop websocket

fun apply_op ::
  "transport \<times> active_connections \<Rightarrow> 'm registry_op \<Rightarrow> transport \<times> active_connections" where
  "apply_op (tr, ac) (Connect r ws) = (case connect tr ac r ws of Inl e \<Rightarrow> (tr, ac) | Inr s \<Rightarrow> s)"
| "apply_op (tr, ac) (Disconnect r ws) =
     (case disconnect ac r ws of Inl e \<Rightarrow> (tr, ac) | Inr ac' \<Rightarrow> (tr, ac'))"
| "apply_op (tr, ac) (Broadcast r m) = (tr, ac)"
| "apply_op (tr, ac) (Drop ws) = (websocket_close tr ws, ac)"

definition run_ops :: "'m registry_op list \<Rightarrow> transport \<times> active_connections" where
  "run_ops ops = foldl apply_op (transport_init, manager_init) ops"

section \<open>Clock, identifiers and time arithmetic\<close>

text \<open>
  An instant is a whole number of microseconds since the epoch, the resolution of Python's
  \<open>datetime\<close> and \<open>timedelta\<close>; a \<open>timedelta\<close> is a whole number of microseconds.
  Naive local datetimes (\<open>datetime.now()\<close>, \<open>datetime.fromtimestamp(t)\<close>) are modelled by
  their instants, as on a host whose local time is UTC. \<open>timestamp()\<close> is taken in exact
  arithmetic; the double that Python computes has the same whole seconds for every instant
  before \<open>2 ^ 34\<close> seconds.

  The \<open>world\<close> holds what a call reads from outside: \<open>clock w k\<close> is the k-th next reading
  of \<open>datetime.now\<close>, \<open>uuid4 w k\<close> the string the k-th next call of
  \<open>str(uuid.uuid4())\<close> returns. A read takes the head and leaves the rest.
\<close>

type_synonym instant = int

type_synonym timedelta = int

record world =
  clock :: "nat \<Rightarrow> instant"
  uuid4 :: "nat \<Rightarrow> string"

definition datetime_now :: "world \<Rightarrow> instant \<times> world" where
  "datetime_now w = (clock w 0, w\<lparr>clock := \<lambda>k. clock w (Suc k)\<rparr>)"

definition uuid4_str :: "world \<Rightarrow> string \<times> world" where
  "uuid4_str w = (uuid4 w 0, w\<lparr>uuid4 := \<lambda>k. uuid4 w (Suc k)\<rparr>)"

definition timedelta_minutes :: "int \<Rightarrow> timedelta" where
  "timedelta_minutes m = m * 60 * 1000000"

definition timedelta_days :: "int \<Rightarrow> timedelta" where
  "timedelta_days d = d * 86400 * 1000000"

text \<open>\<open>datetime.min\<close> (0001-01-01T00:00:00) and \<open>datetime.max\<close>
  (9999-12-31T23:59:59.999999).\<close>

definition datetime_min :: instant where
  "datetime_min = - 62135596800000000"

definition datetime_max :: instant where
  "datetime_max = 253402300799999999"

text \<open>\<open>datetime + timedelta\<close> raises OverflowError when the sum leaves the range of
  \<open>datetime\<close>.\<close>

definition datetime_add :: "instant \<Rightarrow> timedelta \<Rightarrow> error + instant" where
  "datetime_add t d =
     (if datetime_min \<le> t + d \<and> t + d \<le> datetime_max then Inr (t + d) else Inl OverflowError)"

text \<open>\<open>int(d.timestamp())\<close>: the seconds since the epoch, truncated towards zero.\<close>

definition timestamp_int :: "instant \<Rightarrow> int" where
  "timestamp_int t = (if 0 \<le> t then t div 1000000 else - ((- t) div 1000000))"

text \<open>\<open>datetime.fromtimestamp(t)\<close> for whole seconds \<open>t\<close>; a value outside the range of
  \<open>datetime\<close> raises (ValueError, or OverflowError on some platforms).\<close>

definition datetime_fromtimestamp :: "int \<Rightarrow> error + instant" where
  "datetime_fromtimestamp t =
     (if datetime_min \<le> t * 1000000 \<and> t * 1000000 \<le> datetime_max then Inr (t * 1000000)
      else Inl ValueError)"

section \<open>Tokens (app/core/utils.py)\<close>

text \<open>
  The payload of a token is the dict \<open>create_access_token\<close> builds: its five keys, each
  possibly absent in a token of other origin. The value of \<open>user\<close> is a dict (the user data
  passed in), kept in insertion order; \<open>None\<close> there stands for a missing key as for a null
  value, which the program does not tell apart (it reads the key with \<open>.get\<close>).
\<close>

datatype json = JNull | JInt int | JStr string

type_synonym user_dict = "(string \<times> json) list"

record claims =
  user :: "user_dict option"
  exp :: "int option"
  jti :: "string option"
  refresh :: "bool option"
  session_id :: "string option"

text \<open>
  The JWT library, symbolically: \<open>Signed k c\<close> is the compact string \<open>jwt.encode\<close> returns for
  the payload \<open>c\<close> under the key \<open>k\<close>; every other string is \<open>Malformed\<close>. Decoding under the
  configured secret checks the structure, then the signature, then the expiry claim against
  the clock (\<open>exp <= now\<close> is expired; the leeway is zero). The signing algorithm is the same
  configured constant on both sides.
\<close>

datatype token = Signed string claims | Malformed string

definition jwt_encode :: "string \<Rightarrow> claims \<Rightarrow> token" where
  "jwt_encode secret payload = Signed secret payload"

definition jwt_decode :: "string \<Rightarrow> instant \<Rightarrow> token \<Rightarrow> jwt_error + claims" where
  "jwt_decode secret now t =
     (case t of
        Malformed s \<Rightarrow> Inl DecodeError
      | Signed k payload \<Rightarrow>
          if k \<noteq> secret then Inl InvalidSignatureError
          else (case exp payload of
                  None \<Rightarrow> Inr payload
                | Some e \<Rightarrow> if e * 1000000 \<le> now then Inl ExpiredSignatureError
                            else Inr payload))"

definition ACCESS_TOKEN_EXPIRY :: int where
  "ACCESS_TOKEN_EXPIRY = 120"

text \<open>
  \<open>x or str(uuid.uuid4())\<close>: the identifier is drawn only when \<open>x\<close> is None or empty.
  In \<open>create_access_token\<close> the parameters \<open>refresh\<close>, \<open>session_id\<close> and \<open>jti\<close> of the
  source are written \<open>is_refresh\<close>, \<open>sid\<close> and \<open>tid\<close>: the payload's fields have their
  names. The configured secret (\<open>Config.JWT_SECRET\<close>) is a parameter.
\<close>

definition or_uuid4 :: "string option \<Rightarrow> world \<Rightarrow> string \<times> world" where
  "or_uuid4 x w =
     (case x of
        None \<Rightarrow> uuid4_str w
      | Some s \<Rightarrow> if s = [] then uuid4_str w else (s, w))"

definition create_access_token ::
  "string \<Rightarrow> world \<Rightarrow> user_dict option \<Rightarrow> timedelta option \<Rightarrow> bool \<Rightarrow> string option \<Rightarrow>
   string option \<Rightarrow> error + (token \<times> world)" where
  "create_access_token secret w user_data expiry is_refresh sid tid =
     (let token_expiry =
            (case expiry of None \<Rightarrow> timedelta_minutes ACCESS_TOKEN_EXPIRY | Some d \<Rightarrow> d);
          (now, w1) = datetime_now w
      in case datetime_add now token_expiry of
           Inl e \<Rightarrow> Inl e
         | Inr expires \<Rightarrow>
             (let (j, w2) = or_uuid4 tid w1;
                  (s, w3) = or_uuid4 sid w2
              in Inr (jwt_encode secret
                        \<lparr>user = user_data, exp = Some (timestamp_int expires), jti = Some j,
                         refresh = Some is_refresh, session_id = Some s\<rparr>, w3)))"

definition verify_access_token :: "string \<Rightarrow> instant \<Rightarrow> token \<Rightarrow> error + claims" where
  "verify_access_token secret now t =
     (case jwt_decode secret now t of
        Inl ExpiredSignatureError \<Rightarrow> Inl TokenHasExpired
      | Inl e \<Rightarrow> Inl (InvalidToken e)
      | Inr token_data \<Rightarrow>
          if jti token_data = None then Inl (KeyError ''Token does not contain 'jti' field!'')
          else Inr token_data)"

section \<open>Revocation store (app/models.py, app/core/utils.py)\<close>

text \<open>
  A table is the list of its rows. The surrogate key \<open>id\<close> and \<open>created_at\<close> are left out: no
  modelled operation reads them. An insert that breaks a \<open>unique=True\<close> column raises
  IntegrityError and stores nothing; a null is not a duplicate of a null.
  \<open>scalar_one_or_none\<close> raises when more than one row matches.
\<close>

record blacklisted_token =
  bl_token :: token
  bl_token_jti :: "string option"
  bl_expires_at :: instant

record refresh_token =
  rt_jti :: string
  rt_user_id :: int
  rt_session_id :: string
  rt_expires_at :: instant
  rt_revoked :: bool

definition scalar_one_or_none :: "'a list \<Rightarrow> error + 'a option" where
  "scalar_one_or_none rows =
     (case rows of [] \<Rightarrow> Inr None | [r] \<Rightarrow> Inr (Some r) | _ \<Rightarrow> Inl MultipleResultsFound)"

definition blacklist_add ::
  "blacklisted_token list \<Rightarrow> blacklisted_token \<Rightarrow> error + blacklisted_token list" where
  "blacklist_add tbl row =
     (if (\<exists>r \<in> set tbl. bl_token r = bl_token row)
         \<or> (bl_token_jti row \<noteq> None \<and> (\<exists>r \<in> set tbl. bl_token_jti r = bl_token_jti row))
      then Inl IntegrityError
      else Inr (tbl @ [row]))"

definition create_token_blacklist ::
  "string \<Rightarrow> instant \<Rightarrow> token \<Rightarrow> blacklisted_token list \<Rightarrow> error + blacklisted_token list" where
  "create_token_blacklist secret now t tbl =
     (case jwt_decode secret now t of
        Inl e \<Rightarrow> Inl ValueError
      | Inr payload \<Rightarrow>
          (case exp payload of
             None \<Rightarrow> Inl ValueError
           | Some exp_timestamp \<Rightarrow>
               (case datetime_fromtimestamp exp_timestamp of
                  Inl e \<Rightarrow> Inl ValueError
                | Inr expires_at \<Rightarrow>
                    blacklist_add tbl
                      \<lparr>bl_token = t, bl_token_jti = jti payload, bl_expires_at = expires_at\<rparr>)))"

definition get_blacklisted_token_jti ::
  "string \<Rightarrow> blacklisted_token list \<Rightarrow> error + blacklisted_token option" where
  "get_blacklisted_token_jti j tbl =
     scalar_one_or_none (filter (\<lambda>r. bl_token_jti r = Some j) tbl)"

definition get_blacklisted_token ::
  "token \<Rightarrow> blacklisted_token list \<Rightarrow> error + blacklisted_token option" where
  "get_blacklisted_token t tbl = scalar_one_or_none (filter (\<lambda>r. bl_token r = t) tbl)"

definition delete_blacklisted_token ::
  "instant \<Rightarrow> blacklisted_token list \<Rightarrow> blacklisted_token list" where
  "delete_blacklisted_token now tbl = filter (\<lambda>r. \<not> bl_expires_at r < now) tbl"

definition save_refresh_token ::
  "string \<Rightarrow> int \<Rightarrow> string \<Rightarrow> instant \<Rightarrow> refresh_token list \<Rightarrow> error + refresh_token list" where
  "save_refresh_token j uid sid expires_at tbl =
     (if (\<exists>r \<in> set tbl. rt_jti r = j) \<or> (\<exists>r \<in> set tbl. rt_session_id r = sid)
      then Inl IntegrityError
      else Inr (tbl @ [\<lparr>rt_jti = j, rt_user_id = uid, rt_session_id = sid,
                        rt_expires_at = expires_at, rt_revoked = False\<rparr>]))"

definition validate_refresh_token_jti ::
  "string option \<Rightarrow> instant \<Rightarrow> refresh_token list \<Rightarrow> error + refresh_token" where
  "validate_refresh_token_jti j now tbl =
     (case scalar_one_or_none
             (filter (\<lambda>r. Some (rt_jti r) = j \<and> rt_revoked r = False \<and> rt_expires_at r > now) tbl) of
        Inl e \<Rightarrow> Inl e
      | Inr None \<Rightarrow> Inl (HTTPException 403 ''Invalid of expired token'')
      | Inr (Some t) \<Rightarrow> Inr t)"

definition revoke_refresh_token ::
  "string \<Rightarrow> refresh_token list \<Rightarrow> error + refresh_token list" where
  "revoke_refresh_token sid tbl =
     (case scalar_one_or_none (filter (\<lambda>r. rt_session_id r = sid) tbl) of
        Inl e \<Rightarrow> Inl e
      | Inr None \<Rightarrow> Inr tbl
      | Inr (Some t) \<Rightarrow> Inr (map (\<lambda>r. if r = t then r\<lparr>rt_revoked := True\<rparr> else r) tbl))"

section \<open>Session endpoints (app/routers/auth.py, app/services/users.py)\<close>

record user_row =
  u_id :: int
  u_username :: string
  u_email :: string
  u_hashed_password :: string

record login_data =
  ld_username :: string
  ld_password :: string

definition get_user_email :: "string \<Rightarrow> user_row list \<Rightarrow> error + user_row option" where
  "get_user_email user_email users = scalar_one_or_none (filter (\<lambda>u. u_email u = user_email) users)"

definition get_username :: "string \<Rightarrow> user_row list \<Rightarrow> error + user_row option" where
  "get_username username users = scalar_one_or_none (filter (\<lambda>u. u_username u = username) users)"

text \<open>\<open>app.services.users.user\<close>: by email first, then by username.\<close>

definition user_service_user ::
  "string \<Rightarrow> string \<Rightarrow> user_row list \<Rightarrow> error + user_row option" where
  "user_service_user username email users =
     (case get_user_email email users of
        Inl e \<Rightarrow> Inl e
      | Inr (Some u) \<Rightarrow> Inr (Some u)
      | Inr None \<Rightarrow> get_username username users)"

definition REFRESH_EXPIRY :: int where
  "REFRESH_EXPIRY = 3"

text \<open>The dict \<open>user_payload\<close> that \<open>login\<close> puts into both tokens.\<close>

definition user_payload :: "user_row \<Rightarrow> user_dict" where
  "user_payload u = [(''user_id'', JInt (u_id u)), (''username'', JStr (u_username u)),
                     (''email'', JStr (u_email u))]"

text \<open>
  \<open>login\<close> returns the access token, the refresh token and the table of refresh records
  after the insert. \<open>verify_password\<close> is the password library's check, a parameter; the
  configured secret is a parameter too (\<open>Config.JWT_SECRET\<close>).
\<close>

definition login ::
  "(string \<Rightarrow> string \<Rightarrow> bool) \<Rightarrow> string \<Rightarrow> world \<Rightarrow> login_data \<Rightarrow> user_row list \<Rightarrow>
   refresh_token list \<Rightarrow> error + (token \<times> token \<times> refresh_token list)" where
  "login verify_password secret w data users tbl =
     (case user_service_user (ld_username data) (ld_username data) users of
        Inl e \<Rightarrow> Inl e
      | Inr None \<Rightarrow> Inl (HTTPException 400 ''Invalid login details!'')
      | Inr (Some u) \<Rightarrow>
          if \<not> verify_password (ld_password data) (u_hashed_password u)
          then Inl (HTTPException 400 ''Invalid login details!'')
          else
            (let (sid, w1) = uuid4_str w;
                 (tid, w2) = uuid4_str w1
             in case create_access_token secret w2 (Some (user_payload u)) None False
                       (Some sid) (Some tid) of
                  Inl e \<Rightarrow> Inl e
                | Inr (access_token, w3) \<Rightarrow>
                    (case create_access_token secret w3 (Some (user_payload u))
                            (Some (timedelta_days REFRESH_EXPIRY)) True (Some sid) (Some tid) of
                       Inl e \<Rightarrow> Inl e
                     | Inr (refresh_tok, w4) \<Rightarrow>
                         (let (now, w5) = datetime_now w4
                          in case jwt_decode secret now refresh_tok of
                               Inl e \<Rightarrow> Inl (PyJWTError e)
                             | Inr decode_rt \<Rightarrow>
                                 (case exp decode_rt of
                                    None \<Rightarrow> Inl (KeyError ''exp'')
                                  | Some e \<Rightarrow>
                                      (case datetime_fromtimestamp e of
                                         Inl er \<Rightarrow> Inl er
                                       | Inr expires_at \<Rightarrow>
                                           (case save_refresh_token tid (u_id u) sid expires_at tbl of
                                              Inl er \<Rightarrow> Inl er
                                            | Inr tbl' \<Rightarrow>
                                                Inr (access_token, refresh_tok, tbl'))))))))"

text \<open>
  \<open>get_new_token\<close>: \<open>token_details\<close> is the payload of the refresh token presented, as the
  dependency \<open>refresh_token\<close> of app/core/dependencies.py hands it over. The result is the new access token.
\<close>

definition get_new_token ::
  "string \<Rightarrow> world \<Rightarrow> claims \<Rightarrow> refresh_token list \<Rightarrow> error + token" where
  "get_new_token secret w token_details tbl =
     (case exp token_details of
        None \<Rightarrow> Inl (KeyError ''exp'')
      | Some expiry_time \<Rightarrow>
          (let (now_v, w1) = datetime_now w
           in case validate_refresh_token_jti (jti token_details) now_v tbl of
                Inl e \<Rightarrow> Inl e
              | Inr found \<Rightarrow>
                  (case datetime_fromtimestamp expiry_time of
                     Inl e \<Rightarrow> Inl e
                   | Inr expires \<Rightarrow>
                       (let (now, w2) = datetime_now w1
                        in if expires > now
                           then (case create_access_token secret w2 (user token_details) None False
                                        (session_id token_details) None of
                                   Inl e \<Rightarrow> Inl e
                                 | Inr (new_access_token, w3) \<Rightarrow> Inr new_access_token)
                           else Inl (HTTPException 403 ''Invalid or expired refresh token'')))))"

text \<open>
  \<open>logout\<close> returns the blacklist and the refresh records as the handler leaves them when
  it answers. The sweep \<open>delete_blacklisted_token\<close> is scheduled as a background task and
  runs after the answer; it is a step of its own. The \<open>try\<close> block turns a ValueError into
  a 400, and lets every other exception through.
\<close>

definition logout ::
  "string \<Rightarrow> world \<Rightarrow> token \<Rightarrow> blacklisted_token list \<Rightarrow> refresh_token list \<Rightarrow>
   error + (blacklisted_token list \<times> refresh_token list)" where
  "logout secret w t bl rts =
     (case get_blacklisted_token t bl of
        Inl e \<Rightarrow> Inl e
      | Inr (Some revoked_token) \<Rightarrow> Inl (HTTPException 410 ''User already logged out'')
      | Inr None \<Rightarrow>
          (let (now, w1) = datetime_now w;
               try_block =
                 (case verify_access_token secret now t of
                    Inl e \<Rightarrow> Inl e
                  | Inr token_data \<Rightarrow>
                      (case session_id token_data of
                         None \<Rightarrow> Inl (HTTPException 400 ''Token is missing session_id'')
                       | Some sid \<Rightarrow>
                           if sid = [] then Inl (HTTPException 400 ''Token is missing session_id'')
                           else
                             (let (now2, w2) = datetime_now w1
                              in case create_token_blacklist secret now2 t bl of
                                   Inl e \<Rightarrow> Inl e
                                 | Inr bl' \<Rightarrow>
                                     (case revoke_refresh_token sid rts of
                                        Inl e \<Rightarrow> Inl e
                                      | Inr rts' \<Rightarrow> Inr (bl', rts')))))
           in case try_block of
                Inl ValueError \<Rightarrow> Inl (HTTPException 400 ''Invalid token'')
              | Inl e \<Rightarrow> Inl e
              | Inr r \<Rightarrow> Inr r))"

section \<open>Streaming handshake (app/routers/ws\_chat.py)\<close>

text \<open>Python's \<open>s.startswith(p)\<close> and \<open>s.split(sep)\<close> for a separator of one
  character.\<close>

definition startswith :: "string \<Rightarrow> string \<Rightarrow> bool" where
  "startswith s p = (take (length p) s = p)"

fun split_sep :: "char \<Rightarrow> string \<Rightarrow> string list" where
  "split_sep sep [] = [[]]"
| "split_sep sep (c # cs) =
     (if c = sep then [] # split_sep sep cs
      else (case split_sep sep cs of
              [] \<Rightarrow> [[c]]
            | x # xs \<Rightarrow> (c # x) # xs))"

definition WS_1008_POLICY_VIOLATION :: nat where
  "WS_1008_POLICY_VIOLATION = 1008"

text \<open>
  \<open>websocket_endpoint\<close> up to the registration (lines 24 to 46): the connection is either
  closed with a code, or accepted and registered with the authenticated user bound, or the
  handler raises (\<open>manager.connect\<close> raising at the accept). \<open>parse\<close> reads a credential
  string as the token it spells. The result carries the channels and the registry as the call
  leaves them.
\<close>

datatype handshake = Closed nat | Registered user_dict | Raised error

definition websocket_endpoint ::
  "(string \<Rightarrow> token) \<Rightarrow> string \<Rightarrow> instant \<Rightarrow> string option \<Rightarrow> transport \<Rightarrow>
   active_connections \<Rightarrow> int \<Rightarrow> websocket \<Rightarrow> handshake \<times> transport \<times> active_connections" where
  "websocket_endpoint parse secret now authorization tr ac chatroom_id ws =
     (case authorization of
        None \<Rightarrow> (Closed WS_1008_POLICY_VIOLATION, websocket_close tr ws, ac)
      | Some header \<Rightarrow>
          if header = [] \<or> \<not> startswith header ''Bearer ''
          then (Closed WS_1008_POLICY_VIOLATION, websocket_close tr ws, ac)
          else
            (case split_sep (CHR '' '') header of
               x # credential # xs \<Rightarrow>
                 (case jwt_decode secret now (parse credential) of
                    Inl e \<Rightarrow> (Closed WS_1008_POLICY_VIOLATION, websocket_close tr ws, ac)
                  | Inr payload \<Rightarrow>
                      (case user payload of
                         None \<Rightarrow> (Closed WS_1008_POLICY_VIOLATION, websocket_close tr ws, ac)
                       | Some current_user \<Rightarrow>
                           if current_user = []
                           then (Closed WS_1008_POLICY_VIOLATION, websocket_close tr ws, ac)
                           else
                             (case connect tr ac chatroom_id ws of
                                Inl e \<Rightarrow> (Raised e, tr, ac)
                              | Inr (tr', ac') \<Rightarrow> (Registered current_user, tr', ac'))))
             | _ \<Rightarrow> (Raised IndexError, tr, ac)))"

section \<open>Auxiliary notions and example inputs\<close>

text \<open>Histories of the blacklist: logouts' inserts and sweeps. An insert that raises
  stores nothing.\<close>

datatype blacklist_op = Blacklist string instant token | Sweep instant

fun apply_blacklist_op :: "blacklisted_token list \<Rightarrow> blacklist_op \<Rightarrow> blacklisted_token list" where
  "apply_blacklist_op tbl (Blacklist secret now t) =
     (case create_token_blacklist secret now t tbl of Inl e \<Rightarrow> tbl | Inr tbl' \<Rightarrow> tbl')"
| "apply_blacklist_op tbl (Sweep now) = delete_blacklisted_token now tbl"

text \<open>
  Example inputs. In \<open>world0\<close> the clock starts at 1700000000 s and each reading is a
  millisecond later; the identifiers drawn are \<open>u\<close>, \<open>uu\<close>, \<open>uuu\<close>, ...; \<open>world1\<close> is the
  same world 100 s later, two identifiers on. In \<open>frozen_world\<close> every reading is
  1700000000 s and every identifier \<open>u\<close>.
\<close>

definition world0 :: world where
  "world0 = \<lparr>clock = (\<lambda>k. 1700000000000000 + 1000 * int k),
             uuid4 = (\<lambda>k. replicate (Suc k) (CHR ''u''))\<rparr>"

definition world1 :: world where
  "world1 = \<lparr>clock = (\<lambda>k. 1700000100000000 + 1000 * int k),
             uuid4 = (\<lambda>k. replicate (Suc (Suc (Suc k))) (CHR ''u''))\<rparr>"

definition frozen_world :: world where
  "frozen_world = \<lparr>clock = (\<lambda>k. 1700000000000000), uuid4 = (\<lambda>k. ''u'')\<rparr>"

definition users0 :: "user_row list" where
  "users0 = [\<lparr>u_id = 1, u_username = ''alice'', u_email = ''alice@example.org'',
              u_hashed_password = ''hash''\<rparr>]"

definition data0 :: login_data where
  "data0 = \<lparr>ld_username = ''alice'', ld_password = ''pw''\<rparr>"

definition verify_password0 :: "string \<Rightarrow> string \<Rightarrow> bool" where
  "verify_password0 password hashed = (password = ''pw'' \<and> hashed = ''hash'')"

definition claims_access0 :: claims where
  "claims_access0 =
     \<lparr>user = Some [(''user_id'', JInt 1), (''username'', JStr ''alice''),
                   (''email'', JStr ''alice@example.org'')],
      exp = Some 1700007200, jti = Some ''uu'', refresh = Some False, session_id = Some ''u''\<rparr>"

definition claims_refresh0 :: claims where
  "claims_refresh0 =
     \<lparr>user = Some [(''user_id'', JInt 1), (''username'', JStr ''alice''),
                   (''email'', JStr ''alice@example.org'')],
      exp = Some 1700259200, jti = Some ''uu'', refresh = Some True, session_id = Some ''u''\<rparr>"

definition access0 :: token where
  "access0 = Signed ''k'' claims_access0"

definition refresh0 :: token where
  "refresh0 = Signed ''k'' claims_refresh0"

definition refresh_row0 :: refresh_token where
  "refresh_row0 = \<lparr>rt_jti = ''uu'', rt_user_id = 1, rt_session_id = ''u'',
                    rt_expires_at = 1700259200000000, rt_revoked = False\<rparr>"

definition blacklist_row0 :: blacklisted_token where
  "blacklist_row0 = \<lparr>bl_token = access0, bl_token_jti = Some ''uu'',
                      bl_expires_at = 1700007200000000\<rparr>"

definition claims_access1 :: claims where
  "claims_access1 =
     \<lparr>user = Some [(''user_id'', JInt 1), (''username'', JStr ''alice''),
                   (''email'', JStr ''alice@example.org'')],
      exp = Some 1700007300, jti = Some ''uuu'', refresh = Some False, session_id = Some ''u''\<rparr>"

definition parse0 :: "string \<Rightarrow> token" where
  "parse0 s = (if s = ''tok'' then access0 else Malformed s)"

text \<open>
  What holds of channels and registry after every history: a room that has an entry has a
  non-empty list without repetition, and no channel in it is still \<open>CONNECTING\<close>.
\<close>

definition registry_inv :: "transport \<times> active_connections \<Rightarrow> bool" where
  "registry_inv s =
     (\<forall>r l. snd s r = Some l \<longrightarrow> l \<noteq> [] \<and> distinct l \<and> (\<forall>c \<in> set l. fst s c \<noteq> CONNECTING))"

section \<open>Registry: lemmas\<close>

lemma connect_Inr_iff:
  "connect tr ac r ws = Inr (tr', ac') \<longleftrightarrow>
     tr ws = CONNECTING \<and> tr' = tr(ws := CONNECTED) \<and> ac' = ac(r \<mapsto> channels ac r @ [ws])"
  by (auto simp: connect_def websocket_accept_def channels_def Let_def split: option.splits)

lemma connect_not_connecting:
  "tr ws \<noteq> CONNECTING \<Longrightarrow> connect tr ac r ws = Inl RuntimeError"
  by (simp add: connect_def websocket_accept_def)

lemma channels_upd_same: "channels (ac(r \<mapsto> l)) r = l"
  by (simp add: channels_def)

lemma channels_Some: "ac r = Some l \<Longrightarrow> channels ac r = l"
  by (simp add: channels_def)

lemma broadcast_channels: "broadcast tr ac r m = send_each tr (channels ac r) m"
  by (simp add: broadcast_def channels_def split: option.splits)

lemma send_each_open:
  "\<forall>x \<in> set l. tr x = CONNECTED \<Longrightarrow> send_each tr l m = (map (\<lambda>x. (x, m)) l, None)"
  by (induction l) (simp_all add: websocket_send_json_def)

lemma send_each_count: "count_list (fst (send_each tr l m)) (c, m) \<le> count_list l c"
  by (induction l) (auto simp: split_beta split: sum.splits)

lemma send_each_receivers: "fst ` set (fst (send_each tr l m)) \<subseteq> set l"
  by (induction l) (auto simp: split_beta split: sum.splits)

lemma count_list_pair: "count_list (map (\<lambda>x. (x, m)) xs) (c, m) = count_list xs c"
  by (induction xs) auto

lemma count_list_zero_iff: "count_list xs x = 0 \<longleftrightarrow> x \<notin> set xs"
  by (induction xs) auto

lemma count_list_distinct: "distinct xs \<Longrightarrow> x \<in> set xs \<Longrightarrow> count_list xs x = 1"
  by (induction xs) (auto simp: count_list_zero_iff)

lemma disconnect_absent_room: "ac r = None \<Longrightarrow> disconnect ac r ws = Inr ac"
  by (simp add: disconnect_def)

lemma disconnect_absent_channel_raises:
  "ac r = Some conns \<Longrightarrow> ws \<notin> set conns \<Longrightarrow> disconnect ac r ws = Inl ValueError"
  by (simp add: disconnect_def list_remove_def)

lemma disconnect_present:
  "ac r = Some conns \<Longrightarrow> ws \<in> set conns \<Longrightarrow>
   disconnect ac r ws =
     Inr (if remove1 ws conns = [] then ac(r := None) else ac(r \<mapsto> remove1 ws conns))"
  by (simp add: disconnect_def list_remove_def)

lemma channels_disconnect:
  "disconnect ac r ws = Inr ac' \<Longrightarrow> channels ac' r = remove1 ws (channels ac r)"
  by (auto simp: disconnect_def list_remove_def channels_def remove1_idem
           split: option.splits if_splits)

lemma disconnect_other:
  "disconnect ac r ws = Inr ac' \<Longrightarrow> r' \<noteq> r \<Longrightarrow> ac' r' = ac r'"
  by (auto simp: disconnect_def list_remove_def split: option.splits if_splits)

lemma disconnect_same:
  "disconnect ac r ws = Inr ac' \<Longrightarrow> ac' r = Some l \<Longrightarrow>
   l \<noteq> [] \<and> (\<exists>l0. ac r = Some l0 \<and> l = remove1 ws l0)"
  by (auto simp: disconnect_def list_remove_def split: option.splits if_splits)

lemma connect_inv:
  assumes inv: "registry_inv (tr, ac)" and c: "connect tr ac r ws = Inr (tr', ac')"
  shows "registry_inv (tr', ac')"
proof -
  from c have st: "tr ws = CONNECTING" and tr': "tr' = tr(ws := CONNECTED)"
    and ac': "ac' = ac(r \<mapsto> channels ac r @ [ws])"
    by (simp_all add: connect_Inr_iff)
  have reg: "x \<noteq> ws" if "ac q = Some l" "x \<in> set l" for q l x
    using inv st that by (auto simp: registry_inv_def)
  have old: "l \<noteq> [] \<and> distinct l \<and> (\<forall>x \<in> set l. tr x \<noteq> CONNECTING)" if "ac q = Some l" for q l
    using inv that by (auto simp: registry_inv_def)
  have d: "distinct (channels ac r)" and n: "ws \<notin> set (channels ac r)"
    and o: "\<forall>x \<in> set (channels ac r). tr x \<noteq> CONNECTING"
    using old [of r] reg [of r] by (cases "ac r"; simp add: channels_def; blast)+
  show ?thesis
    unfolding registry_inv_def
  proof (intro allI impI)
    fix q l
    assume "snd (tr', ac') q = Some l"
    then have l: "ac' q = Some l" by simp
    show "l \<noteq> [] \<and> distinct l \<and> (\<forall>x \<in> set l. fst (tr', ac') x \<noteq> CONNECTING)"
    proof (cases "q = r")
      case True
      with l ac' have "l = channels ac r @ [ws]" by simp
      with d n o tr' show ?thesis by auto
    next
      case False
      with l ac' have "ac q = Some l" by simp
      with old [of q l] tr' show ?thesis by auto
    qed
  qed
qed

lemma disconnect_inv:
  assumes inv: "registry_inv (tr, ac)" and d: "disconnect ac r ws = Inr ac'"
  shows "registry_inv (tr, ac')"
  unfolding registry_inv_def
proof (intro allI impI)
  fix q l
  assume "snd (tr, ac') q = Some l"
  then have l: "ac' q = Some l" by simp
  have old: "l0 \<noteq> [] \<and> distinct l0 \<and> (\<forall>x \<in> set l0. tr x \<noteq> CONNECTING)" if "ac q0 = Some l0" for q0 l0
    using inv that by (auto simp: registry_inv_def)
  show "l \<noteq> [] \<and> distinct l \<and> (\<forall>x \<in> set l. fst (tr, ac') x \<noteq> CONNECTING)"
  proof (cases "q = r")
    case True
    with disconnect_same [OF d] l obtain l0 where
      "l \<noteq> []" "ac r = Some l0" "l = remove1 ws l0" by blast
    with old [of r l0] show ?thesis
      by (auto dest: notin_set_remove1)
  next
    case False
    with disconnect_other [OF d] l have "ac q = Some l" by simp
    with old [of q l] show ?thesis by simp
  qed
qed

lemma close_inv: "registry_inv (tr, ac) \<Longrightarrow> registry_inv (websocket_close tr ws, ac)"
  by (auto simp: registry_inv_def websocket_close_def)

lemma apply_op_inv: "registry_inv s \<Longrightarrow> registry_inv (apply_op s op)"
proof (cases s)
  case (Pair tr ac)
  assume inv: "registry_inv s"
  show ?thesis
  proof (cases op)
    case (Connect r ws)
    with Pair inv show ?thesis
      by (cases "connect tr ac r ws") (auto intro: connect_inv)
  next
    case (Disconnect r ws)
    with Pair inv show ?thesis
      by (cases "disconnect ac r ws") (auto intro: disconnect_inv)
  next
    case (Broadcast r m)
    with Pair inv show ?thesis by simp
  next
    case (Drop ws)
    with Pair inv show ?thesis by (simp add: close_inv)
  qed
qed

lemma foldl_apply_op_inv: "registry_inv s \<Longrightarrow> registry_inv (foldl apply_op s ops)"
  by (induction ops arbitrary: s) (simp_all add: apply_op_inv)

lemma run_ops_inv: "registry_inv (run_ops ops)"
  unfolding run_ops_def
  by (rule foldl_apply_op_inv) (simp add: registry_inv_def manager_init_def)

lemma run_ops_distinct: "distinct (channels (snd (run_ops ops)) r)"
  using run_ops_inv [of ops]
  by (cases "snd (run_ops ops) r") (auto simp: registry_inv_def channels_def)

lemma run_ops_registered:
  "c \<in> set (channels (snd (run_ops ops)) r) \<Longrightarrow> fst (run_ops ops) c \<noteq> CONNECTING"
  using run_ops_inv [of ops]
  by (cases "snd (run_ops ops) r") (auto simp: registry_inv_def channels_def)

lemma run0: "run_ops [] = (transport_init, manager_init)"
  by (simp add: run_ops_def)

lemma connect_fresh:
  "connect transport_init manager_init 1 7 = Inr (transport_init(7 := CONNECTED), [1 \<mapsto> [7]])"
  by (simp add: connect_Inr_iff transport_init_def manager_init_def channels_def)

lemma run_connect_7:
  "run_ops [Connect 1 7 :: string registry_op] = (transport_init(7 := CONNECTED), [1 \<mapsto> [7]])"
  by (simp add: run_ops_def connect_fresh)

lemma run_connect_7_8:
  "run_ops [Connect 1 7, Connect 1 8 :: string registry_op]
     = (transport_init(7 := CONNECTED, 8 := CONNECTED), [1 \<mapsto> [7, 8]])"
proof -
  have "connect (transport_init(7 := CONNECTED)) [1 \<mapsto> [7]] 1 8
          = Inr (transport_init(7 := CONNECTED, 8 := CONNECTED), [1 \<mapsto> [7, 8]])"
    by (simp add: connect_Inr_iff transport_init_def channels_def)
  then show ?thesis by (simp add: run_ops_def connect_fresh)
qed

lemma run_connect_7_drop:
  "run_ops [Connect 1 7, Drop 7 :: string registry_op]
     = (transport_init(7 := DISCONNECTED), [1 \<mapsto> [7]])"
  by (simp add: run_ops_def connect_fresh websocket_close_def)

lemma run_connect_7_7:
  "run_ops [Connect 1 7, Connect 1 7 :: string registry_op]
     = (transport_init(7 := CONNECTED), [1 \<mapsto> [7]])"
proof -
  have "connect (transport_init(7 := CONNECTED)) [1 \<mapsto> [7]] 1 7 = Inl RuntimeError"
    by (simp add: connect_not_connecting)
  then show ?thesis by (simp add: run_ops_def connect_fresh)
qed

section \<open>Registry: the claims\<close>

text \<open>
  Claim C8. After any history of connect, disconnect and broadcast calls, channels being
  closed or lost in between, on a new registry, no room id is a key of the registry with an
  empty list of channels.
\<close>

theorem registry_rooms_nonempty:
  "snd (run_ops ops) chatroom_id \<noteq> Some []"
  using run_ops_inv [of ops] by (auto simp: registry_inv_def)

text \<open>
  Claim C10, amended. When \<open>connect\<close> has returned for a channel, a second \<open>connect\<close> of
  that channel, to the same room or another, raises at \<open>accept\<close> before the append. So the
  room's list holds the channel once; one broadcast to the room sends the message to it at
  most once, and exactly once when every channel of the room is open; and one \<open>disconnect\<close>
  returns and leaves the channel unregistered.
\<close>

theorem second_connect_raises:
  "connect (fst (run_ops ops)) (snd (run_ops ops)) r c = Inr (tr1, ac1) \<longrightarrow>
     connect tr1 ac1 r' c = Inl RuntimeError
     \<and> count_list (channels ac1 r) c = 1
     \<and> count_list (fst (broadcast tr1 ac1 r m)) (c, m) \<le> 1
     \<and> ((\<forall>x \<in> set (channels ac1 r). tr1 x = CONNECTED)
          \<longrightarrow> count_list (fst (broadcast tr1 ac1 r m)) (c, m) = 1)
     \<and> (\<exists>ac2. disconnect ac1 r c = Inr ac2 \<and> c \<notin> set (channels ac2 r))"
proof
  let ?tr = "fst (run_ops ops)" and ?ac = "snd (run_ops ops)"
  assume ok: "connect ?tr ?ac r c = Inr (tr1, ac1)"
  then have st: "?tr c = CONNECTING" and tr1: "tr1 = ?tr(c := CONNECTED)"
    and ac1: "ac1 = ?ac(r \<mapsto> channels ?ac r @ [c])"
    by (simp_all add: connect_Inr_iff)
  from st run_ops_registered [of c ops r] have n: "c \<notin> set (channels ?ac r)" by blast
  have ch: "channels ac1 r = channels ?ac r @ [c]" by (simp add: ac1 channels_upd_same)
  have a: "connect tr1 ac1 r' c = Inl RuntimeError"
    by (rule connect_not_connecting) (simp add: tr1)
  from n have b: "count_list (channels ac1 r) c = 1"
    by (simp add: ch count_list_zero_iff)
  have c1: "count_list (fst (broadcast tr1 ac1 r m)) (c, m) \<le> 1"
    using send_each_count [of tr1 "channels ac1 r" m c] b by (simp add: broadcast_channels)
  have c2: "count_list (fst (broadcast tr1 ac1 r m)) (c, m) = 1"
    if "\<forall>x \<in> set (channels ac1 r). tr1 x = CONNECTED"
    using send_each_open [OF that, of m] b by (simp add: broadcast_channels count_list_pair)
  have some: "ac1 r = Some (channels ac1 r)" by (simp add: ac1 channels_upd_same)
  have mem: "c \<in> set (channels ac1 r)" by (simp add: ch)
  obtain ac2 where d: "disconnect ac1 r c = Inr ac2"
    using disconnect_present [of ac1 r "channels ac1 r" c] some mem by blast
  from channels_disconnect [OF d] n have "c \<notin> set (channels ac2 r)"
    by (simp add: ch remove1_append)
  with d have e: "\<exists>ac2. disconnect ac1 r c = Inr ac2 \<and> c \<notin> set (channels ac2 r)" by blast
  from a b c1 c2 e
  show "connect tr1 ac1 r' c = Inl RuntimeError
     \<and> count_list (channels ac1 r) c = 1
     \<and> count_list (fst (broadcast tr1 ac1 r m)) (c, m) \<le> 1
     \<and> ((\<forall>x \<in> set (channels ac1 r). tr1 x = CONNECTED)
          \<longrightarrow> count_list (fst (broadcast tr1 ac1 r m)) (c, m) = 1)
     \<and> (\<exists>ac2. disconnect ac1 r c = Inr ac2 \<and> c \<notin> set (channels ac2 r))"
    by blast
qed

text \<open>
  The hypotheses of C10 at the first \<open>connect\<close> on a new registry.
\<close>

theorem second_connect_raises_witness:
  "connect (fst (run_ops ([] :: string registry_op list))) (snd (run_ops ([] :: string registry_op list))) 1 7
     = Inr (transport_init(7 := CONNECTED), [1 \<mapsto> [7]])
   \<and> connect (transport_init(7 := CONNECTED)) [1 \<mapsto> [7]] 1 7 = Inl RuntimeError
   \<and> count_list (channels [1 \<mapsto> [7]] 1) 7 = 1
   \<and> count_list (fst (broadcast (transport_init(7 := CONNECTED)) [1 \<mapsto> [7]] 1 ''m'')) (7, ''m'') = 1"
proof -
  have h: "connect (fst (run_ops ([] :: string registry_op list)))
             (snd (run_ops ([] :: string registry_op list))) 1 7
     = Inr (transport_init(7 := CONNECTED), [1 \<mapsto> [7]])"
    by (simp add: run0 connect_fresh)
  have o: "\<forall>x \<in> set (channels [1 \<mapsto> [7]] 1). (transport_init(7 := CONNECTED)) x = CONNECTED"
    by (simp add: channels_def)
  note T = mp [OF second_connect_raises [of "[] :: string registry_op list" 1 7
                 "transport_init(7 := CONNECTED)" "[1 \<mapsto> [7]]" 1 "''m''"] h]
  from T have a: "connect (transport_init(7 := CONNECTED)) [1 \<mapsto> [7]] 1 7 = Inl RuntimeError"
    by (rule conjunct1)
  from T have b: "count_list (channels [1 \<mapsto> [7]] 1) 7 = 1"
    by (rule conjunct2 [THEN conjunct1])
  from T have "(\<forall>x \<in> set (channels [1 \<mapsto> [7]] 1). (transport_init(7 := CONNECTED)) x = CONNECTED)
          \<longrightarrow> count_list (fst (broadcast (transport_init(7 := CONNECTED)) [1 \<mapsto> [7]] 1 ''m''))
                (7, ''m'') = 1"
    by (rule conjunct2 [THEN conjunct2, THEN conjunct2, THEN conjunct1])
  with o have c: "count_list (fst (broadcast (transport_init(7 := CONNECTED)) [1 \<mapsto> [7]] 1 ''m''))
                (7, ''m'') = 1"
    by (rule rev_mp)
  from h a b c show ?thesis by (intro conjI)
qed

text \<open>
  C10 as stated fails: after two \<open>connect\<close> calls for channel 7 and room 1 the second has
  raised, the room's list is \<open>[7]\<close>, a broadcast sends to 7 once, and one \<open>disconnect\<close>
  leaves nothing registered.
\<close>

theorem second_connect_raises_counterexample:
  "run_ops [Connect 1 7 :: string registry_op] = (transport_init(7 := CONNECTED), [1 \<mapsto> [7]])
   \<and> connect (transport_init(7 := CONNECTED)) [1 \<mapsto> [7]] 1 7 = Inl RuntimeError
   \<and> run_ops [Connect 1 7, Connect 1 7 :: string registry_op]
       = (transport_init(7 := CONNECTED), [1 \<mapsto> [7]])
   \<and> broadcast (transport_init(7 := CONNECTED)) [1 \<mapsto> [7]] 1 ''m'' = ([(7, ''m'')], None)
   \<and> disconnect [1 \<mapsto> [7]] 1 7 = Inr Map.empty"
proof -
  have a: "connect (transport_init(7 := CONNECTED)) [1 \<mapsto> [7]] 1 7 = Inl RuntimeError"
    by (simp add: connect_not_connecting)
  have b: "broadcast (transport_init(7 := CONNECTED)) [1 \<mapsto> [7]] 1 ''m'' = ([(7, ''m'')], None)"
    by (simp add: broadcast_def websocket_send_json_def)
  have c: "disconnect [1 \<mapsto> [7]] 1 7 = Inr Map.empty"
    by (simp add: disconnect_def list_remove_def)
  from run_connect_7 a run_connect_7_7 b c show ?thesis by (intro conjI)
qed

text \<open>
  Claim C3, amended. After any history: when \<open>connect\<close> returns for \<open>c\<close> and every channel
  already in the room's list is open, a broadcast sends the message to every channel of the
  room, and to \<open>c\<close> exactly once; when \<open>disconnect\<close> returns for \<open>c\<close>, no broadcast to the room
  sends anything to \<open>c\<close>, whatever the state of the channels. And in every registry, when
  \<open>c\<close> is the only registration of the room, \<open>disconnect\<close> removes the room's key, and a
  later \<open>connect\<close> of a new channel starts the room's list afresh.
\<close>

theorem connect_disconnect_broadcast:
  "(connect (fst (run_ops ops)) (snd (run_ops ops)) r c = Inr (tr1, ac1)
      \<and> (\<forall>x \<in> set (channels (snd (run_ops ops)) r). fst (run_ops ops) x = CONNECTED)
    \<longrightarrow> broadcast tr1 ac1 r m = (map (\<lambda>x. (x, m)) (channels (snd (run_ops ops)) r @ [c]), None)
        \<and> count_list (fst (broadcast tr1 ac1 r m)) (c, m) = 1)
   \<and> (disconnect (snd (run_ops ops)) r c = Inr ac' \<longrightarrow> c \<notin> fst ` set (fst (broadcast tr' ac' r m)))
   \<and> (ac r = Some [c]
        \<longrightarrow> disconnect ac r c = Inr (ac(r := None)) \<and> (ac(r := None)) r = None
            \<and> (tr c' = CONNECTING
                 \<longrightarrow> connect tr (ac(r := None)) r c' = Inr (tr(c' := CONNECTED), ac(r \<mapsto> [c']))))"
proof (intro conjI impI)
  let ?tr = "fst (run_ops ops)" and ?ac = "snd (run_ops ops)"
  assume h: "connect ?tr ?ac r c = Inr (tr1, ac1)
      \<and> (\<forall>x \<in> set (channels ?ac r). ?tr x = CONNECTED)"
  then have st: "?tr c = CONNECTING" and tr1: "tr1 = ?tr(c := CONNECTED)"
    and ac1: "ac1 = ?ac(r \<mapsto> channels ?ac r @ [c])"
    by (simp_all add: connect_Inr_iff)
  from st run_ops_registered [of c ops r] have n: "c \<notin> set (channels ?ac r)" by blast
  have ch: "channels ac1 r = channels ?ac r @ [c]" by (simp add: ac1 channels_upd_same)
  from h tr1 have "\<forall>x \<in> set (channels ac1 r). tr1 x = CONNECTED" by (simp add: ch)
  from send_each_open [OF this, of m]
  show b: "broadcast tr1 ac1 r m = (map (\<lambda>x. (x, m)) (channels ?ac r @ [c]), None)"
    by (simp add: broadcast_channels ch)
  from n show "count_list (fst (broadcast tr1 ac1 r m)) (c, m) = 1"
    unfolding b by (simp add: count_list_pair count_list_zero_iff del: map_append)
next
  assume d: "disconnect (snd (run_ops ops)) r c = Inr ac'"
  from channels_disconnect [OF d] run_ops_distinct [of ops r]
  have "c \<notin> set (channels ac' r)" by simp
  with send_each_receivers [of tr' "channels ac' r" m]
  show "c \<notin> fst ` set (fst (broadcast tr' ac' r m))"
    by (auto simp: broadcast_channels)
next
  assume "ac r = Some [c]"
  then show "disconnect ac r c = Inr (ac(r := None))"
    by (simp add: disconnect_def list_remove_def)
next
  show "(ac(r := None)) r = None" by simp
next
  assume "tr c' = CONNECTING"
  then show "connect tr (ac(r := None)) r c' = Inr (tr(c' := CONNECTED), ac(r \<mapsto> [c']))"
    by (simp add: connect_Inr_iff channels_def)
qed

text \<open>
  The hypotheses of C3 after channel 7 has connected to room 1.
\<close>

theorem connect_disconnect_broadcast_witness:
  "connect (fst (run_ops [Connect 1 7 :: string registry_op]))
      (snd (run_ops [Connect 1 7 :: string registry_op])) 1 8
     = Inr (transport_init(7 := CONNECTED, 8 := CONNECTED), [1 \<mapsto> [7, 8]])
   \<and> broadcast (transport_init(7 := CONNECTED, 8 := CONNECTED)) [1 \<mapsto> [7, 8]] 1 ''m''
       = ([(7, ''m''), (8, ''m'')], None)
   \<and> disconnect (snd (run_ops [Connect 1 7 :: string registry_op])) 1 7 = Inr Map.empty
   \<and> 7 \<notin> fst ` set (fst (broadcast (transport_init(7 := CONNECTED)) Map.empty 1 ''m''))
   \<and> connect (transport_init(7 := CONNECTED)) Map.empty 1 9
       = Inr (transport_init(7 := CONNECTED, 9 := CONNECTED), [1 \<mapsto> [9]])"
proof -
  let ?ops = "[Connect 1 7 :: string registry_op]"
  have c8: "connect (fst (run_ops ?ops)) (snd (run_ops ?ops)) 1 8
     = Inr (transport_init(7 := CONNECTED, 8 := CONNECTED), [1 \<mapsto> [7, 8]])"
    by (simp add: run_connect_7 connect_Inr_iff transport_init_def channels_def)
  have o: "\<forall>x \<in> set (channels (snd (run_ops ?ops)) 1). fst (run_ops ?ops) x = CONNECTED"
    by (simp add: run_connect_7 channels_def)
  have ch: "channels (snd (run_ops ?ops)) 1 = [7]"
    by (simp add: run_connect_7 channels_def)
  have d: "disconnect (snd (run_ops ?ops)) 1 7 = Inr Map.empty"
    by (simp add: run_connect_7 disconnect_def list_remove_def)
  have s: "[1 \<mapsto> [7]] (1::int) = Some [7::nat]" by simp
  have e: "[1 \<mapsto> [7::nat]](1::int := None) = Map.empty" by simp
  have f: "(transport_init(7 := CONNECTED)) 9 = CONNECTING" by (simp add: transport_init_def)
  note T = connect_disconnect_broadcast [of ?ops 1 8
             "transport_init(7 := CONNECTED, 8 := CONNECTED)" "[1 \<mapsto> [7, 8]]" "''m''"
             Map.empty "transport_init(7 := CONNECTED)" "[1 \<mapsto> [7]]"
             "transport_init(7 := CONNECTED)" 9]
  have a: "broadcast (transport_init(7 := CONNECTED, 8 := CONNECTED)) [1 \<mapsto> [7, 8]] 1 ''m''
       = ([(7, ''m''), (8, ''m'')], None)"
    using mp [OF T [THEN conjunct1] conjI [OF c8 o]] by (simp add: ch)
  note U = connect_disconnect_broadcast [of ?ops 1 7
             "transport_init(7 := CONNECTED, 8 := CONNECTED)" "[1 \<mapsto> [7, 8]]" "''m''"
             Map.empty "transport_init(7 := CONNECTED)" "[1 \<mapsto> [7]]"
             "transport_init(7 := CONNECTED)" 9]
  have b: "7 \<notin> fst ` set (fst (broadcast (transport_init(7 := CONNECTED)) Map.empty 1 ''m''))"
    by (rule mp [OF U [THEN conjunct2, THEN conjunct1] d])
  from mp [OF U [THEN conjunct2, THEN conjunct2] s] f
  have c: "connect (transport_init(7 := CONNECTED)) Map.empty 1 9
       = Inr (transport_init(7 := CONNECTED, 9 := CONNECTED), [1 \<mapsto> [9]])"
    by (simp add: e)
  from c8 a d b c show ?thesis by (intro conjI)
qed

text \<open>
  C3 as stated fails: channel 7 connects to room 1 and loses its peer; channel 8 connects
  to room 1; the broadcast raises at the send to 7 and sends nothing to 8.
\<close>

theorem connect_disconnect_broadcast_counterexample:
  "run_ops [Connect 1 7, Drop 7 :: string registry_op]
     = (transport_init(7 := DISCONNECTED), [1 \<mapsto> [7]])
   \<and> connect (transport_init(7 := DISCONNECTED)) [1 \<mapsto> [7]] 1 8
       = Inr (transport_init(7 := DISCONNECTED, 8 := CONNECTED), [1 \<mapsto> [7, 8]])
   \<and> broadcast (transport_init(7 := DISCONNECTED, 8 := CONNECTED)) [1 \<mapsto> [7, 8]] 1 ''m''
       = ([], Some WebSocketDisconnect)"
proof -
  have a: "connect (transport_init(7 := DISCONNECTED)) [1 \<mapsto> [7]] 1 8
       = Inr (transport_init(7 := DISCONNECTED, 8 := CONNECTED), [1 \<mapsto> [7, 8]])"
    by (simp add: connect_Inr_iff transport_init_def channels_def)
  have b: "broadcast (transport_init(7 := DISCONNECTED, 8 := CONNECTED)) [1 \<mapsto> [7, 8]] 1 ''m''
       = ([], Some WebSocketDisconnect)"
    by (simp add: broadcast_def websocket_send_json_def)
  from run_connect_7_drop a b show ?thesis by (intro conjI)
qed

text \<open>
  Claim C9 fails on the code. With channels 7 and 8 connected to room 1, \<open>disconnect\<close> of 7
  returns and leaves \<open>[8]\<close>; the same \<open>disconnect\<close> again raises ValueError, since the room
  still has an entry and \<open>list.remove\<close> does not find the channel: the guard of
  \<open>disconnect\<close> looks for the room only.
\<close>

theorem disconnect_again_raises:
  "run_ops [Connect 1 7, Connect 1 8 :: string registry_op]
     = (transport_init(7 := CONNECTED, 8 := CONNECTED), [1 \<mapsto> [7, 8]])
   \<and> disconnect [1 \<mapsto> [7, 8]] 1 7 = Inr [1 \<mapsto> [8]]
   \<and> disconnect [1 \<mapsto> [8]] 1 7 = Inl ValueError"
proof -
  have a: "disconnect [1 \<mapsto> [7, 8]] 1 7 = Inr [1 \<mapsto> [8]]"
    by (simp add: disconnect_def list_remove_def)
  have b: "disconnect [1 \<mapsto> [8]] 1 7 = Inl ValueError"
    by (simp add: disconnect_def list_remove_def)
  from run_connect_7_8 a b show ?thesis by (intro conjI)
qed

section \<open>Tokens and sessions: lemmas\<close>

lemma create_access_token_ok:
  assumes "datetime_min \<le> clock w 0 + ttl" "clock w 0 + ttl \<le> datetime_max"
    and "ttl = (case expiry of None \<Rightarrow> 7200000000 | Some d \<Rightarrow> d)"
  shows "create_access_token secret w user_data expiry is_refresh sid tid =
           Inr (Signed secret
                  \<lparr>user = user_data, exp = Some (timestamp_int (clock w 0 + ttl)),
                   jti = Some (fst (or_uuid4 tid (snd (datetime_now w)))),
                   refresh = Some is_refresh,
                   session_id = Some (fst (or_uuid4 sid (snd (or_uuid4 tid (snd (datetime_now w))))))\<rparr>,
                snd (or_uuid4 sid (snd (or_uuid4 tid (snd (datetime_now w))))))"
  using assms
  by (simp add: create_access_token_def datetime_add_def datetime_now_def jwt_encode_def
        timedelta_minutes_def ACCESS_TOKEN_EXPIRY_def Let_def split_beta split: option.splits)

lemma timestamp_int_add_seconds:
  "0 \<le> t \<Longrightarrow> 0 \<le> d \<Longrightarrow> timestamp_int (t + d * 1000000) = t div 1000000 + d"
  by (simp add: timestamp_int_def)

lemma div_mult_close: "\<bar>(x::int) div 1000000 * 1000000 - x\<bar> < 1000000"
proof -
  have "x div 1000000 * 1000000 - x = - (x mod 1000000)"
    by (simp add: minus_mod_eq_div_mult [symmetric])
  moreover have "0 \<le> x mod 1000000" "x mod 1000000 < 1000000" by simp_all
  ultimately show ?thesis by linarith
qed

lemma timestamp_int_close: "\<bar>timestamp_int t * 1000000 - t\<bar> < 1000000"
proof (cases "0 \<le> t")
  case True
  then have "timestamp_int t = t div 1000000" by (simp add: timestamp_int_def)
  then show ?thesis using div_mult_close [of t] by simp
next
  case False
  then have "timestamp_int t = - ((- t) div 1000000)" by (simp add: timestamp_int_def)
  then show ?thesis using div_mult_close [of "- t"] by simp
qed

lemma or_uuid4_Some: "s \<noteq> [] \<Longrightarrow> or_uuid4 (Some s) w = (s, w)"
  by (simp add: or_uuid4_def)

lemma or_uuid4_None: "or_uuid4 None w = (uuid4 w 0, w\<lparr>uuid4 := \<lambda>k. uuid4 w (Suc k)\<rparr>)"
  by (simp add: or_uuid4_def uuid4_str_def)

lemma create_access_token_Inr:
  assumes "create_access_token secret w user_data expiry is_refresh sid tid = Inr (t, w')"
  shows "t = Signed secret
                  \<lparr>user = user_data,
                   exp = Some (timestamp_int (clock w 0 +
                            (case expiry of None \<Rightarrow> 7200000000 | Some d \<Rightarrow> d))),
                   jti = Some (fst (or_uuid4 tid (snd (datetime_now w)))),
                   refresh = Some is_refresh,
                   session_id = Some (fst (or_uuid4 sid (snd (or_uuid4 tid (snd (datetime_now w))))))\<rparr>
         \<and> w' = snd (or_uuid4 sid (snd (or_uuid4 tid (snd (datetime_now w)))))"
  using assms
  by (auto simp: create_access_token_def datetime_add_def datetime_now_def jwt_encode_def
        timedelta_minutes_def ACCESS_TOKEN_EXPIRY_def Let_def split_beta
        split: option.splits if_splits)

lemma clock_or_uuid4 [simp]: "clock (snd (or_uuid4 x w)) = clock w"
  by (simp add: or_uuid4_def uuid4_str_def split: option.splits)

lemma clock_uuid4_str [simp]: "clock (snd (uuid4_str w)) = clock w"
  by (simp add: uuid4_str_def)

lemma clock_datetime_now [simp]: "clock (snd (datetime_now w)) k = clock w (Suc k)"
  by (simp add: datetime_now_def)

lemma uuid4_datetime_now [simp]: "uuid4 (snd (datetime_now w)) = uuid4 w"
  by (simp add: datetime_now_def)

lemma fst_datetime_now [simp]: "fst (datetime_now w) = clock w 0"
  by (simp add: datetime_now_def)

lemma fst_uuid4_str [simp]: "fst (uuid4_str w) = uuid4 w 0"
  by (simp add: uuid4_str_def)

lemma uuid4_uuid4_str [simp]: "uuid4 (snd (uuid4_str w)) k = uuid4 w (Suc k)"
  by (simp add: uuid4_str_def)

lemma login_Inr:
  assumes ok: "login vp secret w data users tbl = Inr (at, rt, tbl')"
  shows "\<exists>u w3 w4 e.
    user_service_user (ld_username data) (ld_username data) users = Inr (Some u)
    \<and> vp (ld_password data) (u_hashed_password u)
    \<and> create_access_token secret (snd (uuid4_str (snd (uuid4_str w)))) (Some (user_payload u))
         None False (Some (uuid4 w 0)) (Some (uuid4 w 1)) = Inr (at, w3)
    \<and> create_access_token secret w3 (Some (user_payload u))
         (Some (timedelta_days REFRESH_EXPIRY)) True (Some (uuid4 w 0)) (Some (uuid4 w 1)) = Inr (rt, w4)
    \<and> save_refresh_token (uuid4 w 1) (u_id u) (uuid4 w 0) e tbl = Inr tbl'"
  using ok
  by (auto simp: login_def user_payload_def Let_def split_beta
        split: sum.splits option.splits if_splits)

lemma login_tokens:
  assumes ok: "login vp secret w data users tbl = Inr (at, rt, tbl')"
  shows "\<exists>u ja sa jr sr.
    at = Signed secret \<lparr>user = Some (user_payload u),
           exp = Some (timestamp_int (clock w 0 + 7200000000)),
           jti = Some ja, refresh = Some False, session_id = Some sa\<rparr>
    \<and> rt = Signed secret \<lparr>user = Some (user_payload u),
           exp = Some (timestamp_int (clock w 1 + 259200000000)),
           jti = Some jr, refresh = Some True, session_id = Some sr\<rparr>
    \<and> (uuid4 w 0 \<noteq> [] \<longrightarrow> sa = uuid4 w 0 \<and> sr = uuid4 w 0)
    \<and> (uuid4 w 1 \<noteq> [] \<longrightarrow> ja = uuid4 w 1 \<and> jr = uuid4 w 1)"
proof -
  from login_Inr [OF ok] obtain u w3 w4 where
    a: "create_access_token secret (snd (uuid4_str (snd (uuid4_str w)))) (Some (user_payload u))
         None False (Some (uuid4 w 0)) (Some (uuid4 w 1)) = Inr (at, w3)"
    and r: "create_access_token secret w3 (Some (user_payload u))
         (Some (timedelta_days REFRESH_EXPIRY)) True (Some (uuid4 w 0)) (Some (uuid4 w 1)) = Inr (rt, w4)"
    by blast
  note A = create_access_token_Inr [OF a]
  note R = create_access_token_Inr [OF r]
  from A have w3: "clock w3 = (\<lambda>k. clock w (Suc k))" by (auto simp: fun_eq_iff)
  show ?thesis
    using A R w3
    by (auto simp: timedelta_days_def REFRESH_EXPIRY_def or_uuid4_Some)
qed



lemma login0: "login verify_password0 ''k'' world0 data0 users0 [] = Inr (access0, refresh0, [refresh_row0])"
  by (simp add: login_def user_payload_def user_service_user_def get_user_email_def get_username_def
      scalar_one_or_none_def users0_def data0_def verify_password0_def uuid4_str_def
      world0_def create_access_token_def datetime_now_def datetime_add_def datetime_min_def
      datetime_max_def or_uuid4_def jwt_encode_def jwt_decode_def timestamp_int_def
      timedelta_minutes_def timedelta_days_def ACCESS_TOKEN_EXPIRY_def REFRESH_EXPIRY_def
      datetime_fromtimestamp_def save_refresh_token_def access0_def refresh0_def claims_access0_def claims_refresh0_def
      refresh_row0_def Let_def)

lemma frozen_create:
  "create_access_token ''k'' frozen_world None None False None None =
     Inr (Signed ''k'' \<lparr>user = None, exp = Some 1700007200, jti = Some ''u'',
            refresh = Some False, session_id = Some ''u''\<rparr>, frozen_world)"
  by (simp add: create_access_token_def frozen_world_def datetime_now_def datetime_add_def
      datetime_min_def datetime_max_def or_uuid4_def uuid4_str_def jwt_encode_def
      timestamp_int_def timedelta_minutes_def ACCESS_TOKEN_EXPIRY_def Let_def)



lemma get_new_token_Inr:
  assumes ok: "get_new_token secret w token_details tbl = Inr t"
  shows "\<exists>e found w'.
     exp token_details = Some e
     \<and> validate_refresh_token_jti (jti token_details) (clock w 0) tbl = Inr found
     \<and> e * 1000000 > clock w 1
     \<and> create_access_token secret (snd (datetime_now (snd (datetime_now w)))) (user token_details)
          None False (session_id token_details) None = Inr (t, w')"
  using ok
  by (auto simp: get_new_token_def datetime_fromtimestamp_def Let_def split_beta
        split: sum.splits option.splits if_splits)

lemma get_new_token0:
  "get_new_token ''k'' world1 claims_refresh0 [refresh_row0] = Inr (Signed ''k'' claims_access1)"
  by (simp add: get_new_token_def claims_refresh0_def refresh_row0_def world1_def
      validate_refresh_token_jti_def scalar_one_or_none_def datetime_now_def
      datetime_fromtimestamp_def datetime_min_def datetime_max_def create_access_token_def
      datetime_add_def or_uuid4_def uuid4_str_def jwt_encode_def timestamp_int_def
      timedelta_minutes_def ACCESS_TOKEN_EXPIRY_def claims_access1_def Let_def)

lemma filter_unique:
  "distinct (map f xs) \<Longrightarrow> r \<in> set xs \<Longrightarrow> filter (\<lambda>x. f x = f r) xs = [r]"
proof (induction xs)
  case Nil
  then show ?case by simp
next
  case (Cons a xs)
  show ?case
  proof (cases "a = r")
    case True
    with Cons.prems have "f r \<notin> f ` set xs" by simp
    then have "\<forall>x \<in> set xs. f x \<noteq> f r" by (metis imageI)
    then have "filter (\<lambda>x. f x = f r) xs = []" by (simp add: filter_empty_conv)
    with True show ?thesis by simp
  next
    case False
    with Cons.prems have r: "r \<in> set xs" and d: "distinct (map f xs)" and "f a \<noteq> f r"
      by auto
    with Cons.IH show ?thesis by simp
  qed
qed

lemma validate_none:
  assumes "\<not> (\<exists>r \<in> set tbl. Some (rt_jti r) = j \<and> \<not> rt_revoked r \<and> now < rt_expires_at r)"
  shows "validate_refresh_token_jti j now tbl = Inl (HTTPException 403 ''Invalid of expired token'')"
proof -
  from assms have
    "filter (\<lambda>r. Some (rt_jti r) = j \<and> rt_revoked r = False \<and> rt_expires_at r > now) tbl = []"
    by (auto simp: filter_empty_conv)
  then show ?thesis
    by (simp add: validate_refresh_token_jti_def scalar_one_or_none_def)
qed

lemma revoke_unique:
  assumes "distinct (map rt_session_id tbl)" and "r \<in> set tbl"
  shows "revoke_refresh_token (rt_session_id r) tbl =
           Inr (map (\<lambda>x. if x = r then x\<lparr>rt_revoked := True\<rparr> else x) tbl)"
  using filter_unique [OF assms]
  by (simp add: revoke_refresh_token_def scalar_one_or_none_def)

lemma revoked_rows:
  assumes dj: "distinct (map rt_jti tbl)" and r: "r \<in> set tbl"
    and x: "x \<in> set (map (\<lambda>x. if x = r then x\<lparr>rt_revoked := True\<rparr> else x) tbl)"
    and j: "rt_jti x = rt_jti r"
  shows "rt_revoked x"
proof -
  from x obtain y where y: "y \<in> set tbl" and xy: "x = (if y = r then y\<lparr>rt_revoked := True\<rparr> else y)"
    by auto
  show ?thesis
  proof (cases "y = r")
    case True
    with xy show ?thesis by simp
  next
    case False
    with xy have "x = y" by simp
    with j have "rt_jti y = rt_jti r" by simp
    moreover from dj have "inj_on rt_jti (set tbl)" by (simp add: distinct_map)
    ultimately have "y = r" using y r by (auto dest: inj_onD)
    with False show ?thesis by simp
  qed
qed

lemma get_new_token_forbidden:
  assumes "exp token_details = Some e"
    and "validate_refresh_token_jti (jti token_details) (clock w 0) tbl = Inl err"
  shows "get_new_token secret w token_details tbl = Inl err"
  using assms by (simp add: get_new_token_def datetime_now_def)

lemma logout_Inr:
  assumes "logout secret w t bl rts = Inr (bl', rts')"
  shows "\<exists>c sid. verify_access_token secret (clock w 0) t = Inr c
           \<and> session_id c = Some sid \<and> sid \<noteq> []
           \<and> get_blacklisted_token t bl = Inr None
           \<and> create_token_blacklist secret (clock w 1) t bl = Inr bl'
           \<and> revoke_refresh_token sid rts = Inr rts'"
  using assms
  by (auto simp: logout_def datetime_now_def Let_def split_beta
        split: sum.splits option.splits if_splits error.splits)

lemma revoked_then_forbidden:
  assumes dj: "distinct (map rt_jti tbl)" and ds: "distinct (map rt_session_id tbl)"
    and r: "r \<in> set tbl"
    and rv: "revoke_refresh_token (rt_session_id r) tbl = Inr tbl'"
  shows "validate_refresh_token_jti (Some (rt_jti r)) now tbl'
           = Inl (HTTPException 403 ''Invalid of expired token'')"
proof -
  from revoke_unique [OF ds r] rv
  have tbl': "tbl' = map (\<lambda>x. if x = r then x\<lparr>rt_revoked := True\<rparr> else x) tbl" by simp
  have "\<not> (\<exists>x \<in> set tbl'. Some (rt_jti x) = Some (rt_jti r) \<and> \<not> rt_revoked x
                  \<and> now < rt_expires_at x)"
    unfolding tbl' using revoked_rows [OF dj r] by blast
  then show ?thesis by (rule validate_none)
qed

lemma verify_Signed:
  "verify_access_token secret now (Signed k c) = Inr c' \<Longrightarrow> c' = c \<and> k = secret"
  by (auto simp: verify_access_token_def jwt_decode_def
        split: sum.splits option.splits if_splits jwt_error.splits)

lemma logout0:
  "logout ''k'' world1 access0 [] [refresh_row0] =
     Inr ([blacklist_row0], [refresh_row0\<lparr>rt_revoked := True\<rparr>])"
  by (simp add: logout_def get_blacklisted_token_def scalar_one_or_none_def datetime_now_def
      world1_def verify_access_token_def jwt_decode_def access0_def claims_access0_def
      create_token_blacklist_def datetime_fromtimestamp_def datetime_min_def datetime_max_def
      blacklist_add_def revoke_refresh_token_def refresh_row0_def blacklist_row0_def Let_def)

lemma map_filter_append:
  "List.map_filter f (xs @ ys) = List.map_filter f xs @ List.map_filter f ys"
  by (simp add: List.map_filter_def)

lemma set_map_filter: "set (List.map_filter f xs) = {y. \<exists>x \<in> set xs. f x = Some y}"
  by (induction xs) (auto split: option.splits)

lemma distinct_map_filter_filter:
  "distinct (List.map_filter f xs) \<Longrightarrow> distinct (List.map_filter f (filter P xs))"
  by (induction xs) (auto simp: set_map_filter split: option.splits)

lemma blacklist_add_Inr:
  assumes "blacklist_add tbl row = Inr tbl'"
  shows "tbl' = tbl @ [row] \<and> (\<forall>r \<in> set tbl. bl_token r \<noteq> bl_token row)
         \<and> (bl_token_jti row \<noteq> None \<longrightarrow> (\<forall>r \<in> set tbl. bl_token_jti r \<noteq> bl_token_jti row))"
  using assms by (auto simp: blacklist_add_def split: if_splits)

lemma create_token_blacklist_Inr:
  assumes "create_token_blacklist secret now t tbl = Inr tbl'"
  shows "\<exists>payload e expires_at.
           jwt_decode secret now t = Inr payload \<and> exp payload = Some e
           \<and> datetime_fromtimestamp e = Inr expires_at
           \<and> blacklist_add tbl \<lparr>bl_token = t, bl_token_jti = jti payload,
                                 bl_expires_at = expires_at\<rparr> = Inr tbl'"
  using assms
  by (auto simp: create_token_blacklist_def split: sum.splits option.splits)

lemma create_token_blacklist_errors:
  "create_token_blacklist secret now t tbl = Inl e \<Longrightarrow> e = ValueError \<or> e = IntegrityError"
  by (auto simp: create_token_blacklist_def blacklist_add_def
        split: sum.splits option.splits if_splits)

lemma jwt_decode_Signed: "jwt_decode secret now (Signed k c) = Inr c' \<Longrightarrow> c' = c"
  by (auto simp: jwt_decode_def split: option.splits if_splits)

lemma create_token_blacklist_distinct:
  assumes inv: "distinct (List.map_filter bl_token_jti tbl)"
  shows "distinct (List.map_filter bl_token_jti
           (case create_token_blacklist secret now t tbl of Inl e \<Rightarrow> tbl | Inr tbl' \<Rightarrow> tbl'))"
proof (cases "create_token_blacklist secret now t tbl")
  case (Inl e)
  with inv show ?thesis by simp
next
  case (Inr tbl')
  from create_token_blacklist_Inr [OF Inr] obtain row where
    add: "blacklist_add tbl row = Inr tbl'" by blast
  note A = blacklist_add_Inr [OF add]
  show ?thesis
  proof (cases "bl_token_jti row")
    case None
    with A inv Inr show ?thesis
      by (simp add: map_filter_append)
  next
    case (Some j)
    with A have "j \<notin> set (List.map_filter bl_token_jti tbl)"
      by (auto simp: set_map_filter)
    with A inv Inr Some show ?thesis
      by (simp add: map_filter_append)
  qed
qed

lemma apply_blacklist_op_distinct:
  "distinct (List.map_filter bl_token_jti tbl) \<Longrightarrow>
   distinct (List.map_filter bl_token_jti (apply_blacklist_op tbl op))"
  by (cases op)
     (simp_all add: create_token_blacklist_distinct delete_blacklisted_token_def
        distinct_map_filter_filter)

lemma foldl_blacklist_distinct:
  "distinct (List.map_filter bl_token_jti tbl) \<Longrightarrow>
   distinct (List.map_filter bl_token_jti (foldl apply_blacklist_op tbl ops))"
  by (induction ops arbitrary: tbl) (simp_all add: apply_blacklist_op_distinct)

lemma blacklisted_found:
  assumes ok: "create_token_blacklist secret now t tbl = Inr tbl'"
  shows "\<exists>row. tbl' = tbl @ [row] \<and> bl_token row = t
           \<and> get_blacklisted_token t tbl' = Inr (Some row)"
proof -
  from create_token_blacklist_Inr [OF ok] obtain row where
    add: "blacklist_add tbl row = Inr tbl'" and t: "bl_token row = t"
    by fastforce
  note A = blacklist_add_Inr [OF add]
  from A t have "filter (\<lambda>r. bl_token r = t) tbl = []"
    by (auto simp: filter_empty_conv)
  with A t have "get_blacklisted_token t tbl' = Inr (Some row)"
    by (simp add: get_blacklisted_token_def scalar_one_or_none_def)
  with A t show ?thesis by blast
qed

lemma blacklisted_jti_found:
  assumes ok: "create_token_blacklist secret now (Signed k c) tbl = Inr tbl'"
    and j: "jti c = Some j"
  shows "\<exists>row. bl_token_jti row = Some j \<and> row \<in> set tbl'
           \<and> get_blacklisted_token_jti j tbl' = Inr (Some row)"
proof -
  from create_token_blacklist_Inr [OF ok] obtain payload expires_at where
    d: "jwt_decode secret now (Signed k c) = Inr payload"
    and add: "blacklist_add tbl \<lparr>bl_token = Signed k c, bl_token_jti = jti payload,
                                 bl_expires_at = expires_at\<rparr> = Inr tbl'"
    by blast
  let ?row = "\<lparr>bl_token = Signed k c, bl_token_jti = jti payload, bl_expires_at = expires_at\<rparr>"
  from jwt_decode_Signed [OF d] j have rj: "bl_token_jti ?row = Some j" by simp
  note A = blacklist_add_Inr [OF add]
  from A rj have "filter (\<lambda>r. bl_token_jti r = Some j) tbl = []"
    by (auto simp: filter_empty_conv)
  with A rj have "get_blacklisted_token_jti j tbl' = Inr (Some ?row)"
    by (simp add: get_blacklisted_token_jti_def scalar_one_or_none_def)
  with A rj show ?thesis by (intro exI [of _ ?row]) simp
qed

lemma second_blacklist_fails:
  assumes row: "row \<in> set tbl" and rj: "bl_token_jti row = Some j" and j: "jti c = Some j"
  shows "\<exists>e. create_token_blacklist secret now (Signed k c) tbl = Inl e"
proof (cases "create_token_blacklist secret now (Signed k c) tbl")
  case (Inl e)
  then show ?thesis by blast
next
  case (Inr tbl')
  from create_token_blacklist_Inr [OF Inr] obtain payload expires_at where
    d: "jwt_decode secret now (Signed k c) = Inr payload"
    and add: "blacklist_add tbl \<lparr>bl_token = Signed k c, bl_token_jti = jti payload,
                                 bl_expires_at = expires_at\<rparr> = Inr tbl'"
    by blast
  from jwt_decode_Signed [OF d] j have "jti payload = Some j" by simp
  with blacklist_add_Inr [OF add] row rj show ?thesis by auto
qed

section \<open>Tokens and sessions: the claims\<close>

text \<open>
  Claim C1, amended. A token issued by \<open>create_access_token\<close> with \<open>refresh = False\<close> and
  no explicit expiry carries as \<open>exp\<close> the whole seconds of the issuance instant plus 120
  minutes (7200 seconds after the second of issuance), whenever that instant is in the
  range of \<open>datetime\<close>; and the two tokens of a login carry that expiry (access) and the
  whole seconds of the refresh token's issuance instant plus 3 days, 259200 seconds.
\<close>

theorem token_expiry_defaults:
  "(datetime_min \<le> clock w 0 + 7200000000 \<and> clock w 0 + 7200000000 \<le> datetime_max \<longrightarrow>
      (\<exists>c w'. create_access_token secret w user_data None False sid tid = Inr (Signed secret c, w')
         \<and> exp c = Some (timestamp_int (clock w 0 + 7200000000))))
   \<and> (0 \<le> clock w 0 \<longrightarrow> timestamp_int (clock w 0 + 7200000000) = clock w 0 div 1000000 + 7200)
   \<and> (login vp secret w data users tbl = Inr (at, rt, tbl') \<longrightarrow>
        (\<exists>ca cr. at = Signed secret ca \<and> rt = Signed secret cr
           \<and> refresh ca = Some False \<and> refresh cr = Some True
           \<and> exp ca = Some (timestamp_int (clock w 0 + 7200000000))
           \<and> exp cr = Some (timestamp_int (clock w 1 + 259200000000))))
   \<and> (0 \<le> clock w 1 \<longrightarrow>
        timestamp_int (clock w 1 + 259200000000) = clock w 1 div 1000000 + 259200)"
proof (intro conjI impI)
  assume "datetime_min \<le> clock w 0 + 7200000000 \<and> clock w 0 + 7200000000 \<le> datetime_max"
  then show "\<exists>c w'. create_access_token secret w user_data None False sid tid = Inr (Signed secret c, w')
         \<and> exp c = Some (timestamp_int (clock w 0 + 7200000000))"
    using create_access_token_ok [of w 7200000000 None secret user_data False sid tid] by simp
next
  assume "0 \<le> clock w 0"
  then show "timestamp_int (clock w 0 + 7200000000) = clock w 0 div 1000000 + 7200"
    using timestamp_int_add_seconds [of "clock w 0" 7200] by simp
next
  assume "login vp secret w data users tbl = Inr (at, rt, tbl')"
  from login_tokens [OF this]
  show "\<exists>ca cr. at = Signed secret ca \<and> rt = Signed secret cr
           \<and> refresh ca = Some False \<and> refresh cr = Some True
           \<and> exp ca = Some (timestamp_int (clock w 0 + 7200000000))
           \<and> exp cr = Some (timestamp_int (clock w 1 + 259200000000))"
    by auto
next
  assume "0 \<le> clock w 1"
  then show "timestamp_int (clock w 1 + 259200000000) = clock w 1 div 1000000 + 259200"
    using timestamp_int_add_seconds [of "clock w 1" 259200] by simp
qed

text \<open>
  The hypotheses of C1 in \<open>world0\<close>: a token issued at 1700000000 s expires at 1700007200 s,
  and the refresh token of the login at 1700259200 s.
\<close>

theorem token_expiry_defaults_witness:
  "datetime_min \<le> clock world0 0 + 7200000000 \<and> clock world0 0 + 7200000000 \<le> datetime_max
   \<and> 0 \<le> clock world0 0 \<and> 0 \<le> clock world0 1
   \<and> login verify_password0 ''k'' world0 data0 users0 [] = Inr (access0, refresh0, [refresh_row0])
   \<and> (\<exists>c w'. create_access_token ''k'' world0 None None False None None = Inr (Signed ''k'' c, w')
         \<and> exp c = Some 1700007200)
   \<and> (\<exists>ca cr. access0 = Signed ''k'' ca \<and> refresh0 = Signed ''k'' cr
         \<and> exp ca = Some 1700007200 \<and> exp cr = Some 1700259200)"
proof -
  have r0: "datetime_min \<le> clock world0 0 + 7200000000
            \<and> clock world0 0 + 7200000000 \<le> datetime_max"
    by (simp add: world0_def datetime_min_def datetime_max_def)
  have p: "0 \<le> clock world0 0" "0 \<le> clock world0 1" by (simp_all add: world0_def)
  have ts: "timestamp_int (clock world0 0 + 7200000000) = 1700007200"
    "timestamp_int (clock world0 1 + 259200000000) = 1700259200"
    by (simp_all add: world0_def timestamp_int_def)
  note T = token_expiry_defaults [of world0 "''k''" None None None
            verify_password0 data0 users0 "[]" access0 refresh0 "[refresh_row0]"]
  from T r0 have a: "\<exists>c w'. create_access_token ''k'' world0 None None False None None
        = Inr (Signed ''k'' c, w') \<and> exp c = Some (timestamp_int (clock world0 0 + 7200000000))"
    by blast
  from T login0 have b: "\<exists>ca cr. access0 = Signed ''k'' ca \<and> refresh0 = Signed ''k'' cr
           \<and> refresh ca = Some False \<and> refresh cr = Some True
           \<and> exp ca = Some (timestamp_int (clock world0 0 + 7200000000))
           \<and> exp cr = Some (timestamp_int (clock world0 1 + 259200000000))"
    by blast
  from a have a': "\<exists>c w'. create_access_token ''k'' world0 None None False None None
        = Inr (Signed ''k'' c, w') \<and> exp c = Some 1700007200"
    by (simp only: ts)
  from b have b': "\<exists>ca cr. access0 = Signed ''k'' ca \<and> refresh0 = Signed ''k'' cr
         \<and> exp ca = Some 1700007200 \<and> exp cr = Some 1700259200"
    unfolding ts by blast
  from r0 p login0 a' b' show ?thesis by blast
qed

text \<open>
  C1 as stated fails: a token issued at 1700000000 s without an explicit expiry carries
  \<open>exp = 1700007200\<close>, which is not the issuance time plus 120 seconds
  (\<open>timedelta(minutes=ACCESS_TOKEN_EXPIRY)\<close>).
\<close>

theorem token_expiry_defaults_counterexample:
  "create_access_token ''k'' frozen_world None None False None None =
     Inr (Signed ''k'' \<lparr>user = None, exp = Some 1700007200, jti = Some ''u'',
            refresh = Some False, session_id = Some ''u''\<rparr>, frozen_world)
   \<and> clock frozen_world 0 = 1700000000 * 1000000
   \<and> (1700007200 :: int) \<noteq> 1700000000 + 120"
  using frozen_create by (simp add: frozen_world_def)

text \<open>
  Claim C2. For every subject and every ttl whose expiry instant is in the range of
  \<open>datetime\<close>, \<open>create_access_token\<close> returns a token; \<open>verify_access_token\<close> at any
  instant before the token's expiry returns its payload, whose \<open>user\<close> is the subject issued
  and whose \<open>exp\<close> is within one second of the issuance instant plus the ttl.
\<close>

theorem issue_verify_roundtrip:
  assumes "datetime_min \<le> clock w 0 + ttl" and "clock w 0 + ttl \<le> datetime_max"
    and "now < timestamp_int (clock w 0 + ttl) * 1000000"
  shows "\<exists>t w' c. create_access_token secret w user_data (Some ttl) is_refresh sid tid = Inr (t, w')
           \<and> verify_access_token secret now t = Inr c
           \<and> user c = user_data
           \<and> exp c = Some (timestamp_int (clock w 0 + ttl))
           \<and> \<bar>timestamp_int (clock w 0 + ttl) * 1000000 - (clock w 0 + ttl)\<bar> < 1000000"
  using assms create_access_token_ok [of w ttl "Some ttl" secret user_data is_refresh sid tid]
    timestamp_int_close [of "clock w 0 + ttl"]
  by (simp add: verify_access_token_def jwt_decode_def)

text \<open>
  The hypotheses of C2 in \<open>world0\<close>, with a ttl of 60 s and a verification 59 s after the
  issuance.
\<close>

theorem issue_verify_roundtrip_witness:
  "datetime_min \<le> clock world0 0 + 60000000 \<and> clock world0 0 + 60000000 \<le> datetime_max
   \<and> (1700000059000000 :: int) < timestamp_int (clock world0 0 + 60000000) * 1000000
   \<and> (\<exists>t w' c. create_access_token ''k'' world0 (Some [(''user_id'', JInt 1)]) (Some 60000000)
                    False None None = Inr (t, w')
           \<and> verify_access_token ''k'' 1700000059000000 t = Inr c
           \<and> user c = Some [(''user_id'', JInt 1)]
           \<and> exp c = Some 1700000060)"
proof -
  have ts: "timestamp_int (clock world0 0 + 60000000) = 1700000060"
    by (simp add: world0_def timestamp_int_def)
  have h: "datetime_min \<le> clock world0 0 + 60000000" "clock world0 0 + 60000000 \<le> datetime_max"
    "(1700000059000000 :: int) < timestamp_int (clock world0 0 + 60000000) * 1000000"
    by (simp_all add: ts) (simp_all add: world0_def datetime_min_def datetime_max_def)
  from issue_verify_roundtrip [OF h(1) h(2) h(3), of "''k''" "Some [(''user_id'', JInt 1)]"
            False None None]
  have "\<exists>t w' c. create_access_token ''k'' world0 (Some [(''user_id'', JInt 1)]) (Some 60000000)
                    False None None = Inr (t, w')
           \<and> verify_access_token ''k'' 1700000059000000 t = Inr c
           \<and> user c = Some [(''user_id'', JInt 1)]
           \<and> exp c = Some 1700000060"
    unfolding ts by blast
  with h show ?thesis by blast
qed

text \<open>
  Claim C5. The access token and the refresh token of a successful login carry the same
  \<open>session_id\<close> and the same \<open>jti\<close>, the two identifiers drawn by \<open>login\<close> (identifier
  strings are not empty). The access token of a successful \<open>get_new_token\<close> carries the
  \<open>session_id\<close> of the refresh token presented and a newly drawn \<open>jti\<close>, different from
  the refresh token's whenever the identifier drawn is.
\<close>

theorem pair_shares_session_and_jti:
  "(login vp secret w data users tbl = Inr (at, rt, tbl') \<and> uuid4 w 0 \<noteq> [] \<and> uuid4 w 1 \<noteq> []
      \<longrightarrow> (\<exists>ca cr. at = Signed secret ca \<and> rt = Signed secret cr
             \<and> refresh ca = Some False \<and> refresh cr = Some True
             \<and> session_id ca = Some (uuid4 w 0) \<and> session_id cr = Some (uuid4 w 0)
             \<and> jti ca = Some (uuid4 w 1) \<and> jti cr = Some (uuid4 w 1)))
   \<and> (get_new_token secret v token_details rts = Inr t
        \<and> session_id token_details = Some s \<and> s \<noteq> []
        \<and> jti token_details \<noteq> Some (uuid4 v 0)
      \<longrightarrow> (\<exists>c. t = Signed secret c \<and> refresh c = Some False
             \<and> user c = user token_details
             \<and> session_id c = session_id token_details
             \<and> jti c = Some (uuid4 v 0) \<and> jti c \<noteq> jti token_details))"
proof (intro conjI impI)
  assume h: "login vp secret w data users tbl = Inr (at, rt, tbl') \<and> uuid4 w 0 \<noteq> []
             \<and> uuid4 w 1 \<noteq> []"
  then have ok: "login vp secret w data users tbl = Inr (at, rt, tbl')" by simp
  from login_tokens [OF ok] h
  show "\<exists>ca cr. at = Signed secret ca \<and> rt = Signed secret cr
             \<and> refresh ca = Some False \<and> refresh cr = Some True
             \<and> session_id ca = Some (uuid4 w 0) \<and> session_id cr = Some (uuid4 w 0)
             \<and> jti ca = Some (uuid4 w 1) \<and> jti cr = Some (uuid4 w 1)"
    by auto
next
  assume h: "get_new_token secret v token_details rts = Inr t
        \<and> session_id token_details = Some s \<and> s \<noteq> []
        \<and> jti token_details \<noteq> Some (uuid4 v 0)"
  then have ok: "get_new_token secret v token_details rts = Inr t" by simp
  from get_new_token_Inr [OF ok] obtain w' where
    c: "create_access_token secret (snd (datetime_now (snd (datetime_now v)))) (user token_details)
          None False (session_id token_details) None = Inr (t, w')"
    by blast
  from create_access_token_Inr [OF c] h
  show "\<exists>c. t = Signed secret c \<and> refresh c = Some False
             \<and> user c = user token_details
             \<and> session_id c = session_id token_details
             \<and> jti c = Some (uuid4 v 0) \<and> jti c \<noteq> jti token_details"
    by (auto simp: or_uuid4_None or_uuid4_Some)
qed

text \<open>
  The hypotheses of C5 at the login of \<open>world0\<close> and the exchange of its refresh token in
  \<open>world1\<close>.
\<close>

theorem pair_shares_session_and_jti_witness:
  "login verify_password0 ''k'' world0 data0 users0 [] = Inr (access0, refresh0, [refresh_row0])
   \<and> uuid4 world0 0 = ''u'' \<and> uuid4 world0 1 = ''uu''
   \<and> session_id claims_access0 = Some ''u'' \<and> session_id claims_refresh0 = Some ''u''
   \<and> jti claims_access0 = Some ''uu'' \<and> jti claims_refresh0 = Some ''uu''
   \<and> get_new_token ''k'' world1 claims_refresh0 [refresh_row0] = Inr (Signed ''k'' claims_access1)
   \<and> session_id claims_access1 = Some ''u'' \<and> jti claims_access1 = Some ''uuu''
   \<and> (\<exists>c. Signed ''k'' claims_access1 = Signed ''k'' c
          \<and> session_id c = session_id claims_refresh0 \<and> jti c \<noteq> jti claims_refresh0)"
proof -
  have u: "uuid4 world0 0 = ''u''" "uuid4 world0 1 = ''uu''" "uuid4 world1 0 = ''uuu''"
    by (simp_all add: world0_def world1_def)
  have f: "session_id claims_access0 = Some ''u''" "session_id claims_refresh0 = Some ''u''"
    "jti claims_access0 = Some ''uu''" "jti claims_refresh0 = Some ''uu''"
    "session_id claims_access1 = Some ''u''" "jti claims_access1 = Some ''uuu''"
    by (simp_all add: claims_access0_def claims_refresh0_def claims_access1_def)
  have g: "jti claims_refresh0 \<noteq> Some (uuid4 world1 0)" "''u'' \<noteq> ([] :: string)"
    "uuid4 world0 0 \<noteq> []" "uuid4 world0 1 \<noteq> []"
    by (simp_all add: world0_def world1_def claims_refresh0_def)
  note T = pair_shares_session_and_jti [of verify_password0 "''k''" world0 data0 users0 "[]"
              access0 refresh0 "[refresh_row0]" world1 claims_refresh0 "[refresh_row0]"
              "Signed ''k'' claims_access1" "''u''"]
  from T get_new_token0 f g
  have "\<exists>c. Signed ''k'' claims_access1 = Signed ''k'' c
          \<and> session_id c = session_id claims_refresh0 \<and> jti c \<noteq> jti claims_refresh0"
    by blast
  with login0 get_new_token0 u f show ?thesis by blast
qed

text \<open>
  Claim C4. \<open>validate_refresh_token_jti\<close> raises the 403 whenever no refresh record has the
  jti, is not revoked and expires after now; so does \<open>get_new_token\<close> for every token
  payload with an \<open>exp\<close>, whatever that \<open>exp\<close> is. In a table with unique jti and
  session\_id columns, once \<open>revoke_refresh_token\<close> has run for a record's session, alone or
  within \<open>logout\<close>, the exchange with that record's jti raises the 403.
\<close>

theorem revoked_refresh_is_forbidden:
  "(\<not> (\<exists>r \<in> set tbl. Some (rt_jti r) = j \<and> \<not> rt_revoked r \<and> now < rt_expires_at r)
      \<longrightarrow> validate_refresh_token_jti j now tbl
            = Inl (HTTPException 403 ''Invalid of expired token''))
   \<and> (exp token_details = Some e
        \<and> \<not> (\<exists>r \<in> set tbl. Some (rt_jti r) = jti token_details \<and> \<not> rt_revoked r
                \<and> clock w 0 < rt_expires_at r)
      \<longrightarrow> get_new_token secret w token_details tbl
            = Inl (HTTPException 403 ''Invalid of expired token''))
   \<and> (distinct (map rt_jti tbl) \<and> distinct (map rt_session_id tbl) \<and> r \<in> set tbl
        \<and> exp token_details = Some e \<and> jti token_details = Some (rt_jti r)
      \<longrightarrow> (\<exists>tbl'. revoke_refresh_token (rt_session_id r) tbl = Inr tbl'
             \<and> get_new_token secret w token_details tbl'
                 = Inl (HTTPException 403 ''Invalid of expired token'')))
   \<and> (distinct (map rt_jti tbl) \<and> distinct (map rt_session_id tbl) \<and> r \<in> set tbl
        \<and> exp token_details = Some e \<and> jti token_details = Some (rt_jti r)
        \<and> session_id c = Some (rt_session_id r)
        \<and> logout secret v (Signed secret c) bl tbl = Inr (bl', tbl')
      \<longrightarrow> get_new_token secret w token_details tbl'
            = Inl (HTTPException 403 ''Invalid of expired token''))"
proof (intro conjI impI)
  assume "\<not> (\<exists>r \<in> set tbl. Some (rt_jti r) = j \<and> \<not> rt_revoked r \<and> now < rt_expires_at r)"
  then show "validate_refresh_token_jti j now tbl
            = Inl (HTTPException 403 ''Invalid of expired token'')"
    by (rule validate_none)
next
  assume h: "exp token_details = Some e
        \<and> \<not> (\<exists>r \<in> set tbl. Some (rt_jti r) = jti token_details \<and> \<not> rt_revoked r
                \<and> clock w 0 < rt_expires_at r)"
  then have "validate_refresh_token_jti (jti token_details) (clock w 0) tbl
            = Inl (HTTPException 403 ''Invalid of expired token'')"
    by (intro validate_none) simp
  with h show "get_new_token secret w token_details tbl
            = Inl (HTTPException 403 ''Invalid of expired token'')"
    by (simp add: get_new_token_forbidden)
next
  assume h: "distinct (map rt_jti tbl) \<and> distinct (map rt_session_id tbl) \<and> r \<in> set tbl
        \<and> exp token_details = Some e \<and> jti token_details = Some (rt_jti r)"
  let ?tbl' = "map (\<lambda>x. if x = r then x\<lparr>rt_revoked := True\<rparr> else x) tbl"
  from h have rv: "revoke_refresh_token (rt_session_id r) tbl = Inr ?tbl'"
    by (simp add: revoke_unique)
  from h rv have "validate_refresh_token_jti (Some (rt_jti r)) (clock w 0) ?tbl'
             = Inl (HTTPException 403 ''Invalid of expired token'')"
    by (intro revoked_then_forbidden [of tbl]) simp_all
  with h have "get_new_token secret w token_details ?tbl'
             = Inl (HTTPException 403 ''Invalid of expired token'')"
    by (simp add: get_new_token_forbidden)
  with rv show "\<exists>tbl'. revoke_refresh_token (rt_session_id r) tbl = Inr tbl'
             \<and> get_new_token secret w token_details tbl'
                 = Inl (HTTPException 403 ''Invalid of expired token'')"
    by blast
next
  assume h: "distinct (map rt_jti tbl) \<and> distinct (map rt_session_id tbl) \<and> r \<in> set tbl
        \<and> exp token_details = Some e \<and> jti token_details = Some (rt_jti r)
        \<and> session_id c = Some (rt_session_id r)
        \<and> logout secret v (Signed secret c) bl tbl = Inr (bl', tbl')"
  then have lo: "logout secret v (Signed secret c) bl tbl = Inr (bl', tbl')" by simp
  from logout_Inr [OF lo] obtain c' sid where
    vr: "verify_access_token secret (clock v 0) (Signed secret c) = Inr c'"
    and sid: "session_id c' = Some sid"
    and rv: "revoke_refresh_token sid tbl = Inr tbl'"
    by blast
  from verify_Signed [OF vr] sid h have "sid = rt_session_id r" by simp
  with rv have rv': "revoke_refresh_token (rt_session_id r) tbl = Inr tbl'" by simp
  from h rv' have "validate_refresh_token_jti (Some (rt_jti r)) (clock w 0) tbl'
             = Inl (HTTPException 403 ''Invalid of expired token'')"
    by (intro revoked_then_forbidden [of tbl]) simp_all
  with h show "get_new_token secret w token_details tbl'
            = Inl (HTTPException 403 ''Invalid of expired token'')"
    by (simp add: get_new_token_forbidden)
qed

text \<open>
  The hypotheses of C4: an empty table, and the record of the login of \<open>world0\<close> revoked
  by the logout in \<open>world1\<close>, while the refresh token itself is valid until 1700259200 s.
\<close>

theorem revoked_refresh_is_forbidden_witness:
  "validate_refresh_token_jti (Some ''uu'') 1700000100000000 []
      = Inl (HTTPException 403 ''Invalid of expired token'')
   \<and> exp claims_refresh0 = Some 1700259200 \<and> clock world1 1 < 1700259200 * 1000000
   \<and> get_new_token ''k'' world1 claims_refresh0 []
      = Inl (HTTPException 403 ''Invalid of expired token'')
   \<and> logout ''k'' world1 access0 [] [refresh_row0]
      = Inr ([blacklist_row0], [refresh_row0\<lparr>rt_revoked := True\<rparr>])
   \<and> get_new_token ''k'' world1 claims_refresh0 [refresh_row0\<lparr>rt_revoked := True\<rparr>]
      = Inl (HTTPException 403 ''Invalid of expired token'')
   \<and> (\<exists>tbl'. revoke_refresh_token ''u'' [refresh_row0] = Inr tbl'
         \<and> get_new_token ''k'' world1 claims_refresh0 tbl'
             = Inl (HTTPException 403 ''Invalid of expired token''))"
proof -
  have f: "exp claims_refresh0 = Some 1700259200" "jti claims_refresh0 = Some (rt_jti refresh_row0)"
    "session_id claims_access0 = Some (rt_session_id refresh_row0)"
    "rt_session_id refresh_row0 = ''u''" "jti claims_refresh0 = Some ''uu''"
    "clock world1 1 < 1700259200 * 1000000"
    by (simp_all add: claims_refresh0_def claims_access0_def refresh_row0_def world1_def)
  have d: "distinct (map rt_jti [refresh_row0])" "distinct (map rt_session_id [refresh_row0])"
    "refresh_row0 \<in> set [refresh_row0]"
    by simp_all
  have e: "\<not> (\<exists>r \<in> set ([] :: refresh_token list). Some (rt_jti r) = Some ''uu''
               \<and> \<not> rt_revoked r \<and> 1700000100000000 < rt_expires_at r)"
    "\<not> (\<exists>r \<in> set ([] :: refresh_token list). Some (rt_jti r) = jti claims_refresh0
               \<and> \<not> rt_revoked r \<and> clock world1 0 < rt_expires_at r)"
    by simp_all
  note T1 = revoked_refresh_is_forbidden [of "[]" "Some ''uu''" 1700000100000000
              claims_refresh0 1700259200 world1 "''k''" refresh_row0 claims_access0 world1
              "[]" "[]" "[]"]
  note T2 = revoked_refresh_is_forbidden [of "[refresh_row0]" "Some ''uu''" 1700000100000000
              claims_refresh0 1700259200 world1 "''k''" refresh_row0 claims_access0 world1
              "[]" "[blacklist_row0]" "[refresh_row0\<lparr>rt_revoked := True\<rparr>]"]
  from T1 e have a: "validate_refresh_token_jti (Some ''uu'') 1700000100000000 []
      = Inl (HTTPException 403 ''Invalid of expired token'')"
    by blast
  from T1 e f have b: "get_new_token ''k'' world1 claims_refresh0 []
      = Inl (HTTPException 403 ''Invalid of expired token'')"
    by blast
  from T2 d f have c: "\<exists>tbl'. revoke_refresh_token (rt_session_id refresh_row0) [refresh_row0] = Inr tbl'
         \<and> get_new_token ''k'' world1 claims_refresh0 tbl'
             = Inl (HTTPException 403 ''Invalid of expired token'')"
    by blast
  have lo: "logout ''k'' world1 (Signed ''k'' claims_access0) [] [refresh_row0] =
     Inr ([blacklist_row0], [refresh_row0\<lparr>rt_revoked := True\<rparr>])"
    using logout0 by (simp add: access0_def)
  from T2 d f lo have g: "get_new_token ''k'' world1 claims_refresh0 [refresh_row0\<lparr>rt_revoked := True\<rparr>]
      = Inl (HTTPException 403 ''Invalid of expired token'')"
    by blast
  from a b c g f logout0 show ?thesis by simp
qed

text \<open>
  Claim C6. After \<open>create_token_blacklist\<close> succeeds, \<open>get_blacklisted_token\<close> finds the
  entry by the raw token, and \<open>get_blacklisted_token_jti\<close> finds it by the jti; blacklisting
  any token with the same jti again stores nothing and raises (IntegrityError from the unique
  column, or ValueError when that token does not decode); in every history of inserts and
  sweeps from the empty table each jti occurs at most once; and a second \<open>logout\<close> with a
  token whose logout succeeded answers 410, already logged out.
\<close>

theorem blacklist_once:
  "(create_token_blacklist secret now t tbl = Inr tbl'
      \<longrightarrow> (\<exists>row. tbl' = tbl @ [row] \<and> bl_token row = t
             \<and> get_blacklisted_token t tbl' = Inr (Some row)))
   \<and> (create_token_blacklist secret now (Signed k c) tbl = Inr tbl'
        \<and> jti c = Some j \<and> jti c2 = Some j
      \<longrightarrow> (\<exists>row. get_blacklisted_token_jti j tbl' = Inr (Some row))
          \<and> (create_token_blacklist secret now2 (Signed k2 c2) tbl' = Inl IntegrityError
             \<or> create_token_blacklist secret now2 (Signed k2 c2) tbl' = Inl ValueError))
   \<and> distinct (List.map_filter bl_token_jti (foldl apply_blacklist_op [] ops))
   \<and> (logout secret w t bl rts = Inr (bl', rts')
      \<longrightarrow> logout secret w2 t bl' rts2 = Inl (HTTPException 410 ''User already logged out''))"
proof (intro conjI impI)
  assume "create_token_blacklist secret now t tbl = Inr tbl'"
  then show "\<exists>row. tbl' = tbl @ [row] \<and> bl_token row = t
             \<and> get_blacklisted_token t tbl' = Inr (Some row)"
    by (rule blacklisted_found)
next
  assume h: "create_token_blacklist secret now (Signed k c) tbl = Inr tbl'
        \<and> jti c = Some j \<and> jti c2 = Some j"
  with blacklisted_jti_found [of secret now k c tbl tbl' j]
  show "\<exists>row. get_blacklisted_token_jti j tbl' = Inr (Some row)" by blast
next
  assume h: "create_token_blacklist secret now (Signed k c) tbl = Inr tbl'
        \<and> jti c = Some j \<and> jti c2 = Some j"
  with blacklisted_jti_found [of secret now k c tbl tbl' j] obtain row where
    "row \<in> set tbl'" "bl_token_jti row = Some j" by blast
  with h second_blacklist_fails [of row tbl' j c2 secret now2 k2] obtain e where
    "create_token_blacklist secret now2 (Signed k2 c2) tbl' = Inl e" by blast
  with create_token_blacklist_errors [of secret now2 "Signed k2 c2" tbl' e]
  show "create_token_blacklist secret now2 (Signed k2 c2) tbl' = Inl IntegrityError
        \<or> create_token_blacklist secret now2 (Signed k2 c2) tbl' = Inl ValueError"
    by blast
next
  show "distinct (List.map_filter bl_token_jti (foldl apply_blacklist_op [] ops))"
    by (rule foldl_blacklist_distinct) simp
next
  assume "logout secret w t bl rts = Inr (bl', rts')"
  from logout_Inr [OF this] have "create_token_blacklist secret (clock w 1) t bl = Inr bl'"
    by blast
  from blacklisted_found [OF this] obtain row where
    "get_blacklisted_token t bl' = Inr (Some row)" by blast
  then show "logout secret w2 t bl' rts2 = Inl (HTTPException 410 ''User already logged out'')"
    by (simp add: logout_def)
qed

text \<open>
  The hypotheses of C6: the access token of the login of \<open>world0\<close> is blacklisted, then its
  refresh token, which has the same jti; and the logout is repeated.
\<close>

theorem blacklist_once_witness:
  "create_token_blacklist ''k'' 1700000100001000 access0 [] = Inr [blacklist_row0]
   \<and> get_blacklisted_token access0 [blacklist_row0] = Inr (Some blacklist_row0)
   \<and> get_blacklisted_token_jti ''uu'' [blacklist_row0] = Inr (Some blacklist_row0)
   \<and> create_token_blacklist ''k'' 1700000200000000 refresh0 [blacklist_row0] = Inl IntegrityError
   \<and> logout ''k'' world1 access0 [] [refresh_row0]
       = Inr ([blacklist_row0], [refresh_row0\<lparr>rt_revoked := True\<rparr>])
   \<and> logout ''k'' world1 access0 [blacklist_row0] [refresh_row0\<lparr>rt_revoked := True\<rparr>]
       = Inl (HTTPException 410 ''User already logged out'')"
proof -
  have c1: "create_token_blacklist ''k'' 1700000100001000 (Signed ''k'' claims_access0) []
              = Inr [blacklist_row0]"
    by (simp add: create_token_blacklist_def jwt_decode_def claims_access0_def access0_def
        datetime_fromtimestamp_def datetime_min_def datetime_max_def blacklist_add_def
        blacklist_row0_def)
  have j: "jti claims_access0 = Some ''uu''" "jti claims_refresh0 = Some ''uu''"
    by (simp_all add: claims_access0_def claims_refresh0_def)
  have v: "create_token_blacklist ''k'' 1700000200000000 (Signed ''k'' claims_refresh0)
              [blacklist_row0] \<noteq> Inl ValueError"
    by (simp add: create_token_blacklist_def jwt_decode_def claims_refresh0_def
        datetime_fromtimestamp_def datetime_min_def datetime_max_def blacklist_add_def
        blacklist_row0_def)
  note T = blacklist_once [of "''k''" 1700000100001000 access0 "[]" "[blacklist_row0]"
             "''k''" claims_access0 "''uu''" claims_refresh0 1700000200000000 "''k''" "[]"
             world1 "[]" "[refresh_row0]" "[blacklist_row0]"
             "[refresh_row0\<lparr>rt_revoked := True\<rparr>]" world1
             "[refresh_row0\<lparr>rt_revoked := True\<rparr>]"]
  from c1 have c1': "create_token_blacklist ''k'' 1700000100001000 access0 [] = Inr [blacklist_row0]"
    by (simp add: access0_def)
  from mp [OF T [THEN conjunct1] c1']
  have a: "get_blacklisted_token access0 [blacklist_row0] = Inr (Some blacklist_row0)"
    by auto
  have b: "get_blacklisted_token_jti ''uu'' [blacklist_row0] = Inr (Some blacklist_row0)"
    by (simp add: get_blacklisted_token_jti_def scalar_one_or_none_def blacklist_row0_def)
  from T [THEN conjunct2, THEN conjunct1] c1 j v
  have c: "create_token_blacklist ''k'' 1700000200000000 (Signed ''k'' claims_refresh0)
              [blacklist_row0] = Inl IntegrityError"
    by (simp add: access0_def)
  from mp [OF T [THEN conjunct2, THEN conjunct2, THEN conjunct2] logout0]
  have d: "logout ''k'' world1 access0 [blacklist_row0] [refresh_row0\<lparr>rt_revoked := True\<rparr>]
       = Inl (HTTPException 410 ''User already logged out'')" .
  from c1' a b c d logout0 show ?thesis by (simp add: refresh0_def)
qed

section \<open>Streaming handshake: lemmas and the claim\<close>

lemma split_sep_nonempty: "split_sep sep s \<noteq> []"
  by (induction s) (auto split: list.splits)

lemma split_sep_two: "\<exists>x y zs. split_sep sep (a @ sep # b) = x # y # zs"
proof (induction a)
  case Nil
  obtain y zs where "split_sep sep b = y # zs"
    using split_sep_nonempty [of sep b] by (cases "split_sep sep b") auto
  then show ?case by simp
next
  case (Cons c a)
  then obtain x y zs where "split_sep sep (a @ sep # b) = x # y # zs" by blast
  then show ?case by (cases "c = sep") auto
qed

lemma startswith_Bearer_split:
  assumes "startswith header ''Bearer ''"
  shows "\<exists>x y zs. split_sep (CHR '' '') header = x # y # zs"
proof -
  have l: "length ''Bearer '' = 7" by simp
  from assms have t: "take 7 header = ''Bearer ''" unfolding startswith_def l .
  have "header = take 7 header @ drop 7 header" by simp
  then have "header = ''Bearer '' @ drop 7 header" unfolding t .
  then obtain rest where h: "header = ''Bearer'' @ CHR '' '' # rest" by simp
  show ?thesis unfolding h by (rule split_sep_two)
qed

lemma split0: "split_sep (CHR '' '') ''Bearer tok'' = [''Bearer'', ''tok'']"
  by simp

text \<open>
  Claim C7. When the Authorization header is missing or does not start with \<open>Bearer \<close>, when
  decoding the credential fails (an \<open>exp\<close> at or before now is the failure
  ExpiredSignatureError), or when the payload has no user or an empty one,
  \<open>websocket_endpoint\<close> closes the connection with code 1008 and leaves the registry as it
  was. In every case the call either does that, or the credential decodes to a payload with
  a user and the handler calls \<open>connect\<close>: the channel is registered when it is new, and
  otherwise the accept raises and the registry is as it was.
\<close>

theorem handshake_failure_closes:
  "(authorization = None \<or> (\<exists>h. authorization = Some h \<and> \<not> startswith h ''Bearer '')
      \<longrightarrow> websocket_endpoint parse secret now authorization tr ac room ws
            = (Closed 1008, websocket_close tr ws, ac))
   \<and> (authorization = Some header \<and> split_sep (CHR '' '') header = x # credential # xs
        \<and> (jwt_decode secret now (parse credential) = Inl e
            \<or> (\<exists>payload. jwt_decode secret now (parse credential) = Inr payload
                  \<and> (user payload = None \<or> user payload = Some [])))
      \<longrightarrow> websocket_endpoint parse secret now authorization tr ac room ws
            = (Closed 1008, websocket_close tr ws, ac))
   \<and> (parse credential = Signed secret c \<and> exp c = Some t \<and> t * 1000000 \<le> now
      \<longrightarrow> jwt_decode secret now (parse credential) = Inl ExpiredSignatureError)
   \<and> (websocket_endpoint parse secret now authorization tr ac room ws
         = (Closed 1008, websocket_close tr ws, ac)
       \<or> (\<exists>header x credential xs payload u.
             authorization = Some header \<and> startswith header ''Bearer ''
             \<and> split_sep (CHR '' '') header = x # credential # xs
             \<and> jwt_decode secret now (parse credential) = Inr payload
             \<and> user payload = Some u \<and> u \<noteq> []
             \<and> websocket_endpoint parse secret now authorization tr ac room ws
                 = (case connect tr ac room ws of
                      Inl e \<Rightarrow> (Raised e, tr, ac)
                    | Inr (tr', ac') \<Rightarrow> (Registered u, tr', ac'))
             \<and> (tr ws = CONNECTING
                  \<longrightarrow> websocket_endpoint parse secret now authorization tr ac room ws
                        = (Registered u, tr(ws := CONNECTED),
                           ac(room \<mapsto> channels ac room @ [ws])))
             \<and> (tr ws \<noteq> CONNECTING
                  \<longrightarrow> websocket_endpoint parse secret now authorization tr ac room ws
                        = (Raised RuntimeError, tr, ac))))"
proof (intro conjI impI)
  assume "authorization = None \<or> (\<exists>h. authorization = Some h \<and> \<not> startswith h ''Bearer '')"
  then show "websocket_endpoint parse secret now authorization tr ac room ws
               = (Closed 1008, websocket_close tr ws, ac)"
    by (auto simp: websocket_endpoint_def WS_1008_POLICY_VIOLATION_def)
next
  assume "authorization = Some header \<and> split_sep (CHR '' '') header = x # credential # xs
        \<and> (jwt_decode secret now (parse credential) = Inl e
            \<or> (\<exists>payload. jwt_decode secret now (parse credential) = Inr payload
                  \<and> (user payload = None \<or> user payload = Some [])))"
  then show "websocket_endpoint parse secret now authorization tr ac room ws
               = (Closed 1008, websocket_close tr ws, ac)"
    by (auto simp: websocket_endpoint_def WS_1008_POLICY_VIOLATION_def)
next
  assume "parse credential = Signed secret c \<and> exp c = Some t \<and> t * 1000000 \<le> now"
  then show "jwt_decode secret now (parse credential) = Inl ExpiredSignatureError"
    by (simp add: jwt_decode_def)
next
  let ?closed = "websocket_endpoint parse secret now authorization tr ac room ws
                   = (Closed 1008, websocket_close tr ws, ac)"
  let ?registered = "\<exists>header x credential xs payload u.
             authorization = Some header \<and> startswith header ''Bearer ''
             \<and> split_sep (CHR '' '') header = x # credential # xs
             \<and> jwt_decode secret now (parse credential) = Inr payload
             \<and> user payload = Some u \<and> u \<noteq> []
             \<and> websocket_endpoint parse secret now authorization tr ac room ws
                 = (case connect tr ac room ws of
                      Inl e \<Rightarrow> (Raised e, tr, ac)
                    | Inr (tr', ac') \<Rightarrow> (Registered u, tr', ac'))
             \<and> (tr ws = CONNECTING
                  \<longrightarrow> websocket_endpoint parse secret now authorization tr ac room ws
                        = (Registered u, tr(ws := CONNECTED),
                           ac(room \<mapsto> channels ac room @ [ws])))
             \<and> (tr ws \<noteq> CONNECTING
                  \<longrightarrow> websocket_endpoint parse secret now authorization tr ac room ws
                        = (Raised RuntimeError, tr, ac))"
  show "?closed \<or> ?registered"
  proof (cases authorization)
    case None
    then show ?thesis by (simp add: websocket_endpoint_def WS_1008_POLICY_VIOLATION_def)
  next
    case (Some header)
    show ?thesis
    proof (cases "startswith header ''Bearer ''")
      case False
      with Some show ?thesis by (simp add: websocket_endpoint_def WS_1008_POLICY_VIOLATION_def)
    next
      case True
      then have ne: "header \<noteq> []" by (auto simp: startswith_def)
      from startswith_Bearer_split [OF True] obtain x credential xs where
        sp: "split_sep (CHR '' '') header = x # credential # xs" by blast
      show ?thesis
      proof (cases "jwt_decode secret now (parse credential)")
        case (Inl e)
        with Some True ne sp show ?thesis
          by (simp add: websocket_endpoint_def WS_1008_POLICY_VIOLATION_def)
      next
        case (Inr payload)
        show ?thesis
        proof (cases "user payload = None \<or> user payload = Some []")
          case True
          with Some \<open>startswith header ''Bearer ''\<close> ne sp Inr show ?thesis
            by (auto simp: websocket_endpoint_def WS_1008_POLICY_VIOLATION_def)
        next
          case False
          then obtain u where u: "user payload = Some u" "u \<noteq> []" by auto
          with Some \<open>startswith header ''Bearer ''\<close> ne sp Inr
          have w: "websocket_endpoint parse secret now authorization tr ac room ws
                 = (case connect tr ac room ws of
                      Inl e \<Rightarrow> (Raised e, tr, ac)
                    | Inr (tr', ac') \<Rightarrow> (Registered u, tr', ac'))"
            by (simp add: websocket_endpoint_def)
          have w1: "websocket_endpoint parse secret now authorization tr ac room ws
                        = (Registered u, tr(ws := CONNECTED), ac(room \<mapsto> channels ac room @ [ws]))"
            if "tr ws = CONNECTING"
          proof -
            from that have "connect tr ac room ws
                = Inr (tr(ws := CONNECTED), ac(room \<mapsto> channels ac room @ [ws]))"
              by (simp add: connect_Inr_iff)
            with w show ?thesis by simp
          qed
          have w2: "websocket_endpoint parse secret now authorization tr ac room ws
                        = (Raised RuntimeError, tr, ac)"
            if "tr ws \<noteq> CONNECTING"
            using w that connect_not_connecting [of tr ws ac room] by simp
          from Some \<open>startswith header ''Bearer ''\<close> sp Inr u w w1 w2
          have ?registered by blast
          then show ?thesis ..
        qed
      qed
    qed
  qed
qed


text \<open>
  The hypotheses of C7: no header, a header of another scheme, and a token whose \<open>exp\<close> is
  one second in the past.
\<close>

theorem handshake_failure_closes_witness:
  "websocket_endpoint parse0 ''k'' 1700007201000000 None transport_init [7 \<mapsto> [3]] 7 4
       = (Closed 1008, websocket_close transport_init 4, [7 \<mapsto> [3]])
   \<and> websocket_endpoint parse0 ''k'' 1700007201000000 (Some ''Basic tok'') transport_init
         [7 \<mapsto> [3]] 7 4
       = (Closed 1008, websocket_close transport_init 4, [7 \<mapsto> [3]])
   \<and> split_sep (CHR '' '') ''Bearer tok'' = [''Bearer'', ''tok'']
   \<and> parse0 ''tok'' = Signed ''k'' claims_access0 \<and> exp claims_access0 = Some 1700007200
   \<and> jwt_decode ''k'' 1700007201000000 (parse0 ''tok'') = Inl ExpiredSignatureError
   \<and> websocket_endpoint parse0 ''k'' 1700007201000000 (Some ''Bearer tok'') transport_init
         [7 \<mapsto> [3]] 7 4
       = (Closed 1008, websocket_close transport_init 4, [7 \<mapsto> [3]])"
proof -
  have p: "parse0 ''tok'' = Signed ''k'' claims_access0" "exp claims_access0 = Some 1700007200"
    "(1700007200 :: int) * 1000000 \<le> 1700007201000000"
    by (simp_all add: parse0_def access0_def claims_access0_def)
  have n: "\<not> startswith ''Basic tok'' ''Bearer ''" by (simp add: startswith_def)
  note T = handshake_failure_closes [of _ parse0 "''k''" 1700007201000000 transport_init
             "[7 \<mapsto> [3]]" 7 4
             "''Bearer tok''" "''Bearer''" "''tok''" "[]" ExpiredSignatureError
             claims_access0 1700007200]
  have a: "websocket_endpoint parse0 ''k'' 1700007201000000 None transport_init [7 \<mapsto> [3]] 7 4
      = (Closed 1008, websocket_close transport_init 4, [7 \<mapsto> [3]])"
    by (rule mp [OF T [of None, THEN conjunct1]]) simp
  have b: "websocket_endpoint parse0 ''k'' 1700007201000000 (Some ''Basic tok'') transport_init
             [7 \<mapsto> [3]] 7 4
       = (Closed 1008, websocket_close transport_init 4, [7 \<mapsto> [3]])"
    by (rule mp [OF T [of "Some ''Basic tok''", THEN conjunct1]]) (simp add: n)
  have c: "jwt_decode ''k'' 1700007201000000 (parse0 ''tok'') = Inl ExpiredSignatureError"
    by (rule mp [OF T [of None, THEN conjunct2, THEN conjunct2, THEN conjunct1]]) (simp add: p)
  have d: "websocket_endpoint parse0 ''k'' 1700007201000000 (Some ''Bearer tok'') transport_init
             [7 \<mapsto> [3]] 7 4
       = (Closed 1008, websocket_close transport_init 4, [7 \<mapsto> [3]])"
    by (rule mp [OF T [of "Some ''Bearer tok''", THEN conjunct2, THEN conjunct1]])
       (simp add: c)
  from a b c d p split0 show ?thesis by simp
qed

end
